theory Spec2Isabelle
  imports Complex_Main "HOL-Library.Word" "HOL-Library.Multiset"
begin

section \<open>JavaScript strings\<close>

text \<open>
  A JavaScript string is a sequence of UTF-16 code units; \<open>length\<close> counts code units.
  String literals of the source are ASCII and are written \<open>ascii ''...''\<close>.
\<close>

type_synonym jsstring = "16 word list"

definition ascii :: "string \<Rightarrow> jsstring" where
  "ascii s = map (\<lambda>c. of_nat (of_char c)) s"

text \<open>
  \<open>String.prototype.trim\<close> removes leading and trailing WhiteSpace and LineTerminator
  code points (ECMAScript: TAB, VT, FF, SP, NBSP, ZWNBSP, the Unicode space separators,
  LF, CR, LS, PS). All of them are single code units.
\<close>

definition isWhiteSpace :: "16 word \<Rightarrow> bool" where
  "isWhiteSpace c \<longleftrightarrow>
     c = 0x0009 \<or> c = 0x000A \<or> c = 0x000B \<or> c = 0x000C \<or> c = 0x000D \<or>
     c = 0x0020 \<or> c = 0x00A0 \<or> c = 0x1680 \<or> (0x2000 \<le> c \<and> c \<le> 0x200A) \<or>
     c = 0x2028 \<or> c = 0x2029 \<or> c = 0x202F \<or> c = 0x205F \<or> c = 0x3000 \<or>
     c = 0xFEFF"

definition trim :: "jsstring \<Rightarrow> jsstring" where
  "trim s = rev (dropWhile isWhiteSpace (rev (dropWhile isWhiteSpace s)))"

text \<open>\<open>s.substring(0, n)\<close> for a non-negative integer \<open>n\<close>.\<close>

definition substring0 :: "jsstring \<Rightarrow> nat \<Rightarrow> jsstring" where
  "substring0 s n = take n s"

text \<open>\<open>s.startsWith(p)\<close>.\<close>

definition startsWith :: "jsstring \<Rightarrow> jsstring \<Rightarrow> bool" where
  "startsWith s p \<longleftrightarrow> take (length p) s = p"

text \<open>The decimal text of a non-negative integer, as a template literal prints it.\<close>

fun number_text :: "nat \<Rightarrow> string" where
  "number_text n =
     (if n < 10 then [''0123456789'' ! n]
      else number_text (n div 10) @ [''0123456789'' ! (n mod 10)])"

declare number_text.simps [simp del]

text \<open>\<open>v || d\<close> for a string-valued property \<open>v\<close> that may be missing: a missing, null or
  empty value is falsy.\<close>

definition or_default :: "jsstring option \<Rightarrow> jsstring \<Rightarrow> jsstring" where
  "or_default v d = (case v of None \<Rightarrow> d | Some s \<Rightarrow> if s = [] then d else s)"

section \<open>Data model\<close>

record flashcard =
  question :: jsstring
  answer :: jsstring

datatype connection = connected | disconnected | connecting

text \<open>\<open>this.state\<close> of \<open>ConceptaApp\<close>.\<close>

record app_state =
  currentTab :: jsstring
  currentDifficulty :: jsstring
  theme :: jsstring
  flashcards :: "flashcard list"
  currentFlashcardIndex :: int
  isFlashcardFlipped :: bool
  connectionStatus :: connection
  model :: jsstring
  apiUrl :: jsstring
  backendUrl :: jsstring
  isPhi3 :: bool

text \<open>Responses of the backend, with the shapes the render functions read.\<close>

datatype explain_data =
  ExplainData jsstring jsstring jsstring "jsstring list" jsstring "jsstring list"
  \<comment> \<open>topic, difficulty, simple_explanation, steps, analogy, key_points\<close>

datatype summary_data =
  SummaryData jsstring "jsstring list" "(jsstring \<times> jsstring) list" "jsstring list"
  \<comment> \<open>summary, key_points, definitions (term, definition), exam_tips\<close>

datatype quiz_question =
  QuizQuestion jsstring "jsstring option" "jsstring list option" jsstring "jsstring option"
  \<comment> \<open>question, type, options, answer, explanation\<close>

text \<open>\<open>questions\<close> is \<open>None\<close> when the property is missing or null.\<close>

record quiz_data =
  questions :: "quiz_question list option"
  difficulty :: jsstring

text \<open>\<open>flashcards_field\<close> is \<open>None\<close> when the property \<open>flashcards\<close> is missing or null.\<close>

record flashcards_data =
  flashcards_field :: "flashcard list option"

text \<open>The persisted settings object; a property is \<open>None\<close> when missing or null.\<close>

record settings =
  settings_theme :: "jsstring option"
  settings_model :: "jsstring option"
  settings_apiUrl :: "jsstring option"

section \<open>The page\<close>

text \<open>What \<open>renderQuiz\<close> puts under the quiz header: the "No questions generated" block,
  or the list of questions followed by the performance tip.\<close>

datatype quiz_section = NoQuestionsGenerated | QuestionsContainer "quiz_question list"

text \<open>The \<open>innerHTML\<close> of an output region, by the function that wrote it.\<close>

datatype panel =
  PageMarkup
    \<comment> \<open>the markup of the page, not written by the script\<close>
| LoadingState jsstring
    \<comment> \<open>\<open>showLoading\<close>: spinner and message\<close>
| ErrorState jsstring
    \<comment> \<open>\<open>showError\<close>: warning triangle, message, Retry button\<close>
| ExplanationOutput explain_data
| SummaryOutput summary_data
| QuizOutput nat jsstring quiz_section
    \<comment> \<open>\<open>renderQuiz\<close>: header with the number of questions and the difficulty, then the section\<close>

datatype output_region = explainOutput | summaryOutput | quizOutput

datatype input_field = topicInput | notesInput | quizInput | flashcardsInput

text \<open>The texts \<open>initializeApp\<close> writes into the loading status line.\<close>

datatype loading_status =
  LoadingMarkup
| CheckingBackendConnection
    \<comment> \<open>'Checking backend connection...'\<close>
| BackendNotConnected
    \<comment> \<open>'Backend not connected!' and the command that starts the backend\<close>
| CheckingOllama
    \<comment> \<open>'Checking Ollama...'\<close>
| OllamaNotRunning
    \<comment> \<open>'Ollama not running!', the command that starts it, 'Using mock responses for now...'\<close>
| LoadingPhi3Mini
    \<comment> \<open>'Loading Phi-3 Mini...'\<close>

text \<open>
  The part of the document the modelled functions read or write (\<open>this.elements\<close>, and the
  selects read through \<open>document.getElementById\<close>). An input is its \<open>value\<close>, an output
  region its \<open>innerHTML\<close>, a counter the number shown in its \<open>textContent\<close>.
\<close>

record dom =
  input_value :: "input_field \<Rightarrow> jsstring"
  summaryLength :: jsstring
  quizType :: jsstring
  quizDifficulty :: jsstring
  questionCount :: jsstring
  output_html :: "output_region \<Rightarrow> panel"
  cardQuestion :: jsstring
  cardAnswer :: jsstring
  currentCard :: int
  totalCards :: int
  flashcard_flipped :: bool
  modelSelect :: jsstring
  apiUrl_input :: jsstring
  statusDot :: "string list"
  statusText :: string
  loadingStatus :: loading_status
  loadingScreen_hidden :: bool
  body_overflow_auto :: bool

datatype kind = success | error | warning | info

datatype notification = Notification jsstring kind

datatype js_error = TypeError | SyntaxError | NetworkError | ServerError nat

datatype console_entry =
  ConsoleError string js_error
| Uncaught js_error

datatype http_method = GET | POST

datatype request_body =
  NoBody
| ExplainBody jsstring jsstring jsstring
    \<comment> \<open>topic, difficulty, model\<close>
| SummarizeBody jsstring jsstring jsstring
    \<comment> \<open>notes, length, model\<close>
| QuizBody jsstring jsstring jsstring jsstring jsstring
    \<comment> \<open>content, type, difficulty, the text \<open>parseInt\<close> reads the count from, model\<close>
| FlashcardsBody jsstring nat jsstring
    \<comment> \<open>content, count, model\<close>

datatype request = Fetch jsstring http_method request_body

text \<open>The outcome of a \<open>fetch\<close>: the promise rejects, or there is a response with a status
  and a body; the body is \<open>None\<close> when \<open>response.json()\<close> rejects.\<close>

datatype 'd fetch_outcome = FetchRejected | FetchResponse nat "'d option"

definition ok :: "nat \<Rightarrow> bool" where
  "ok status \<longleftrightarrow> 200 \<le> status \<and> status \<le> 299"

text \<open>The callback \<open>initializeApp\<close> hands to \<open>setTimeout\<close>, with the captured \<open>ollamaOk\<close>.\<close>

datatype callback = FinalInitialization bool

text \<open>
  The application and its surroundings: the state, the document, every notification
  \<open>showNotification\<close> has appended (their removal after the duration is not modelled), the
  console, the requests issued, \<open>localStorage\<close>, and the pending timeouts.
\<close>

record app =
  state :: app_state
  elements :: dom
  notifications :: "notification list"
  console :: "console_entry list"
  requests :: "request list"
  localStorage :: "string \<rightharpoonup> jsstring"
  timers :: "(nat \<times> callback) list"

text \<open>The constructor's state, on a page whose inputs are empty.\<close>

definition initial_state :: app_state where
  "initial_state =
     \<lparr> currentTab = ascii ''explainer'',
       currentDifficulty = ascii ''beginner'',
       theme = ascii ''dark'',
       flashcards = [],
       currentFlashcardIndex = 0,
       isFlashcardFlipped = False,
       connectionStatus = disconnected,
       model = ascii ''phi3:mini'',
       apiUrl = ascii ''http://localhost:11434'',
       backendUrl = ascii ''http://localhost:8000'',
       isPhi3 = True \<rparr>"

definition initial_dom :: dom where
  "initial_dom =
     \<lparr> input_value = (\<lambda>_. []),
       summaryLength = [],
       quizType = [],
       quizDifficulty = [],
       questionCount = [],
       output_html = (\<lambda>_. PageMarkup),
       cardQuestion = [],
       cardAnswer = [],
       currentCard = 0,
       totalCards = 0,
       flashcard_flipped = False,
       modelSelect = [],
       apiUrl_input = [],
       statusDot = [],
       statusText = [],
       loadingStatus = LoadingMarkup,
       loadingScreen_hidden = False,
       body_overflow_auto = False \<rparr>"

definition initial_app :: app where
  "initial_app =
     \<lparr> state = initial_state,
       elements = initial_dom,
       notifications = [],
       console = [],
       requests = [],
       localStorage = Map.empty,
       timers = [] \<rparr>"

section \<open>Utilities\<close>

definition showNotification :: "jsstring \<Rightarrow> kind \<Rightarrow> app \<Rightarrow> app" where
  "showNotification message type a =
     a\<lparr>notifications := notifications a @ [Notification message type]\<rparr>"

definition set_output :: "output_region \<Rightarrow> panel \<Rightarrow> app \<Rightarrow> app" where
  "set_output element p a =
     a\<lparr>elements := (elements a)\<lparr>output_html := (output_html (elements a))(element := p)\<rparr>\<rparr>"

definition set_input :: "input_field \<Rightarrow> jsstring \<Rightarrow> app \<Rightarrow> app" where
  "set_input input v a =
     a\<lparr>elements := (elements a)\<lparr>input_value := (input_value (elements a))(input := v)\<rparr>\<rparr>"

definition showLoading :: "output_region \<Rightarrow> jsstring \<Rightarrow> app \<Rightarrow> app" where
  "showLoading element message a = set_output element (LoadingState message) a"

definition showError :: "output_region \<Rightarrow> jsstring \<Rightarrow> app \<Rightarrow> app" where
  "showError element message a = set_output element (ErrorState message) a"

definition console_error :: "string \<Rightarrow> js_error \<Rightarrow> app \<Rightarrow> app" where
  "console_error label e a = a\<lparr>console := console a @ [ConsoleError label e]\<rparr>"

text \<open>An exception that leaves an event handler is reported on the console.\<close>

definition uncaught :: "js_error \<Rightarrow> app \<Rightarrow> app" where
  "uncaught e a = a\<lparr>console := console a @ [Uncaught e]\<rparr>"

definition fetch :: "jsstring \<Rightarrow> http_method \<Rightarrow> request_body \<Rightarrow> app \<Rightarrow> app" where
  "fetch url m b a = a\<lparr>requests := requests a @ [Fetch url m b]\<rparr>"

text \<open>\<open>validateInput(input, max)\<close>, the listener of the four inputs.\<close>

definition validateInput :: "input_field \<Rightarrow> nat \<Rightarrow> app \<Rightarrow> app" where
  "validateInput input maxlen a =
     (if length (input_value (elements a) input) > maxlen then
        showNotification
          (ascii (''Limited to '' @ number_text maxlen @ '' characters for Phi-3 optimization''))
          warning
          (set_input input (substring0 (input_value (elements a) input) maxlen) a)
      else a)"

section \<open>Flashcards\<close>

text \<open>
  \<open>updateFlashcardDisplay\<close>. With a deck that is not empty it reads
  \<open>flashcards[currentFlashcardIndex]\<close>; outside the deck that is \<open>undefined\<close>, and reading
  its \<open>question\<close> throws a TypeError before anything is written: the result is \<open>None\<close>.
\<close>

definition updateFlashcardDisplay :: "app \<Rightarrow> app option" where
  "updateFlashcardDisplay a =
     (let fs = flashcards (state a);
          i = currentFlashcardIndex (state a)
      in if length fs = 0 then
           Some (a\<lparr>elements := (elements a)
             \<lparr>cardQuestion := ascii ''<p>Generate or load flashcards to begin.</p>'',
              cardAnswer := ascii ''<p>Flip to see answer.</p>'',
              currentCard := 0,
              totalCards := 0,
              flashcard_flipped := False\<rparr>\<rparr>)
         else if 0 \<le> i \<and> i < int (length fs) then
           Some (a\<lparr>elements := (elements a)
             \<lparr>cardQuestion := ascii ''<p>'' @ question (fs ! nat i) @ ascii ''</p>'',
              cardAnswer := ascii ''<p>'' @ answer (fs ! nat i) @ ascii ''</p>'',
              currentCard := i + 1,
              totalCards := int (length fs),
              flashcard_flipped := isFlashcardFlipped (state a)\<rparr>\<rparr>)
         else None)"

text \<open>A handler that ends with \<open>this.updateFlashcardDisplay()\<close>.\<close>

definition display_or_throw :: "app \<Rightarrow> app" where
  "display_or_throw a =
     (case updateFlashcardDisplay a of None \<Rightarrow> uncaught TypeError a | Some a' \<Rightarrow> a')"

definition navigateFlashcard :: "int \<Rightarrow> app \<Rightarrow> app" where
  "navigateFlashcard direction a =
     (if length (flashcards (state a)) = 0 then a
      else
        let newIndex = currentFlashcardIndex (state a) + direction;
            newIndex = (if newIndex < 0 then int (length (flashcards (state a))) - 1
                        else newIndex);
            newIndex = (if newIndex \<ge> int (length (flashcards (state a))) then 0
                        else newIndex)
        in display_or_throw
             (a\<lparr>state := (state a)
                \<lparr>currentFlashcardIndex := newIndex, isFlashcardFlipped := False\<rparr>\<rparr>))"

definition flipFlashcard :: "app \<Rightarrow> app" where
  "flipFlashcard a =
     display_or_throw
       (a\<lparr>state := (state a)\<lparr>isFlashcardFlipped := \<not> isFlashcardFlipped (state a)\<rparr>\<rparr>)"

text \<open>
  \<open>Math.random() * (i + 1)\<close> and \<open>Math.floor\<close> work on IEEE 754 doubles. A finite double
  that is not negative is \<open>mantissa * 2 ^ exponent\<close> with a mantissa below \<open>2 ^ 53\<close> and an
  exponent from -1074 to 971; \<open>below_one\<close> says that its value is less than 1, so that
  \<open>is_double d \<and> below_one d\<close> describes the values of \<open>Math.random()\<close>.
\<close>

record double =
  mantissa :: nat
  exponent :: int

definition double_value :: "double \<Rightarrow> real" where
  "double_value d = real (mantissa d) * 2 powi exponent d"

definition is_double :: "double \<Rightarrow> bool" where
  "is_double d \<longleftrightarrow> mantissa d < 2 ^ 53 \<and> - 1074 \<le> exponent d \<and> exponent d \<le> 971"

definition below_one :: "double \<Rightarrow> bool" where
  "below_one d \<longleftrightarrow>
     mantissa d = 0 \<or> (exponent d < 0 \<and> mantissa d < 2 ^ nat (- exponent d))"

text \<open>The number of binary digits of a natural number.\<close>

fun bit_length :: "nat \<Rightarrow> nat" where
  "bit_length n = (if n = 0 then 0 else Suc (bit_length (n div 2)))"

declare bit_length.simps [simp del]

text \<open>
  The product of a double \<open>d\<close> and an integer \<open>n\<close> that a double holds exactly (here
  \<open>i + 1\<close>, at most the length of an array, which is below \<open>2 ^ 32\<close>). The exact product
  is \<open>p * 2 ^ exponent d\<close> with \<open>p = mantissa d * n\<close>. When \<open>p\<close> has at most 53 binary
  digits the product is a double. Otherwise the \<open>s\<close> digits beyond the 53 leading ones are
  rounded away, to the nearest multiple of \<open>2 ^ s\<close> and to the even one of two equally
  near (roundTiesToEven); the mantissa \<open>2 ^ 53\<close>, reached when the rounding carries, stands
  for \<open>2 ^ 52\<close> with the next exponent. With \<open>d\<close> below 1 the product is below \<open>2 ^ 32\<close>
  and, having an exponent not below that of \<open>d\<close>, is no subnormal rounding case.
\<close>

definition times_double :: "double \<Rightarrow> nat \<Rightarrow> double" where
  "times_double d n =
     (let p = mantissa d * n
      in if p < 2 ^ 53 then \<lparr>mantissa = p, exponent = exponent d\<rparr>
         else
           let s = bit_length p - 53;
               q = p div 2 ^ s;
               r = p mod 2 ^ s;
               half = 2 ^ (s - 1)
           in \<lparr>mantissa = (if r > half \<or> (r = half \<and> odd q) then q + 1 else q),
               exponent = exponent d + int s\<rparr>)"

text \<open>\<open>Math.floor\<close> of a double that is not negative, as the integer it is.\<close>

definition Math_floor :: "double \<Rightarrow> nat" where
  "Math_floor d =
     (if 0 \<le> exponent d then mantissa d * 2 ^ nat (exponent d)
      else mantissa d div 2 ^ nat (- exponent d))"

text \<open>
  The loop of \<open>shuffleFlashcards\<close>, \<open>for (i = length - 1; i > 0; i--)\<close>. \<open>random k\<close> is the
  value of the \<open>k\<close>-th call of \<open>Math.random()\<close>; the destructuring assignment reads both
  elements before it writes them.
\<close>

fun shuffle_loop :: "(nat \<Rightarrow> double) \<Rightarrow> nat \<Rightarrow> nat \<Rightarrow> 'a list \<Rightarrow> 'a list" where
  "shuffle_loop random k 0 xs = xs"
| "shuffle_loop random k (Suc i) xs =
     (let j = Math_floor (times_double (random k) (Suc i + 1))
      in shuffle_loop random (Suc k) i (xs[Suc i := xs ! j, j := xs ! Suc i]))"

definition shuffleFlashcards :: "(nat \<Rightarrow> double) \<Rightarrow> app \<Rightarrow> app" where
  "shuffleFlashcards random a =
     (if length (flashcards (state a)) = 0 then a
      else
        let a1 = a\<lparr>state := (state a)
                   \<lparr>flashcards :=
                      shuffle_loop random 0 (length (flashcards (state a)) - 1)
                        (flashcards (state a)),
                    currentFlashcardIndex := 0,
                    isFlashcardFlipped := False\<rparr>\<rparr>
        in (case updateFlashcardDisplay a1 of
              None \<Rightarrow> uncaught TypeError a1
            | Some a2 \<Rightarrow> showNotification (ascii ''Flashcards shuffled!'') success a2))"

section \<open>Persistence\<close>

text \<open>
  \<open>localStorage.setItem\<close> throws when the storage refuses the write (quota, disabled
  storage): \<open>accepts\<close> says whether it takes the write, and \<open>None\<close> is the exception.
\<close>

definition setItem ::
  "((string \<rightharpoonup> jsstring) \<Rightarrow> string \<Rightarrow> jsstring \<Rightarrow> bool) \<Rightarrow>
   string \<Rightarrow> jsstring \<Rightarrow> (string \<rightharpoonup> jsstring) \<Rightarrow> (string \<rightharpoonup> jsstring) option" where
  "setItem accepts key v store = (if accepts store key v then Some (store(key \<mapsto> v)) else None)"

text \<open>
  \<open>JSON.stringify\<close> and \<open>JSON.parse\<close> belong to the platform and are parameters:
  \<open>stringify\<close> at the type of decks; \<open>parse\<close> gives \<open>None\<close> when \<open>JSON.parse\<close> throws a
  SyntaxError and the deck the text encodes otherwise.
\<close>

definition saveFlashcards ::
  "(flashcard list \<Rightarrow> jsstring) \<Rightarrow> ((string \<rightharpoonup> jsstring) \<Rightarrow> string \<Rightarrow> jsstring \<Rightarrow> bool) \<Rightarrow>
   app \<Rightarrow> app" where
  "saveFlashcards stringify accepts a =
     (if length (flashcards (state a)) = 0 then
        showNotification (ascii ''No flashcards to save'') warning a
      else
        (case setItem accepts ''concepta_flashcards'' (stringify (flashcards (state a)))
                (localStorage a) of
           None \<Rightarrow> showNotification (ascii ''Failed to save flashcards'') error a
         | Some store \<Rightarrow>
             showNotification
               (ascii (''Saved '' @ number_text (length (flashcards (state a))) @ '' flashcards''))
               success
               (a\<lparr>localStorage := store\<rparr>)))"

definition loadFlashcards :: "(jsstring \<Rightarrow> flashcard list option) \<Rightarrow> app \<Rightarrow> app" where
  "loadFlashcards parse a =
     (case localStorage a ''concepta_flashcards'' of
        None \<Rightarrow> showNotification (ascii ''No saved flashcards found'') info a
      | Some saved \<Rightarrow>
          (if saved = [] then showNotification (ascii ''No saved flashcards found'') info a
           else
             (case parse saved of
                None \<Rightarrow> showNotification (ascii ''Failed to load flashcards'') error a
              | Some cards \<Rightarrow>
                  (let a1 = a\<lparr>state := (state a)
                             \<lparr>flashcards := cards,
                              currentFlashcardIndex := 0,
                              isFlashcardFlipped := False\<rparr>\<rparr>
                   in (case updateFlashcardDisplay a1 of
                         None \<Rightarrow> showNotification (ascii ''Failed to load flashcards'') error a1
                       | Some a2 \<Rightarrow>
                           showNotification
                             (ascii (''Loaded '' @ number_text (length (flashcards (state a2)))
                                     @ '' flashcards''))
                             success a2)))))"

definition loadSettings :: "(jsstring \<Rightarrow> settings option) \<Rightarrow> app \<Rightarrow> app" where
  "loadSettings parse a =
     (case localStorage a ''concepta_settings'' of
        None \<Rightarrow> a
      | Some saved \<Rightarrow>
          (if saved = [] then a
           else
             (case parse saved of
                None \<Rightarrow> console_error ''Error loading settings:'' SyntaxError a
              | Some s \<Rightarrow>
                  (let m = or_default (settings_model s) (ascii ''phi3:mini'');
                       u = or_default (settings_apiUrl s) (ascii ''http://localhost:11434'')
                   in a\<lparr>state := (state a)
                          \<lparr>theme := or_default (settings_theme s) (ascii ''dark''),
                           model := m,
                           apiUrl := u,
                           isPhi3 := startsWith m (ascii ''phi3'')\<rparr>,
                        elements := (elements a)\<lparr>modelSelect := m, apiUrl_input := u\<rparr>\<rparr>))))"

section \<open>Startup\<close>

definition status_name :: "connection \<Rightarrow> string" where
  "status_name c =
     (case c of connected \<Rightarrow> ''connected'' | disconnected \<Rightarrow> ''disconnected''
      | connecting \<Rightarrow> ''connecting'')"

definition updateConnectionStatus :: "connection \<Rightarrow> app \<Rightarrow> app" where
  "updateConnectionStatus status a =
     a\<lparr>state := (state a)\<lparr>connectionStatus := status\<rparr>,
       elements := (elements a)
         \<lparr>statusDot :=
            [''status-dot'', status_name status]
            @ (if status = connected \<and> isPhi3 (state a) then [''phi3-connected''] else []),
          statusText :=
            (case status of
               connected \<Rightarrow> if isPhi3 (state a) then ''Phi-3 Ready'' else ''Connected''
             | disconnected \<Rightarrow> ''Disconnected''
             | connecting \<Rightarrow> ''Connecting...'')\<rparr>\<rparr>"

text \<open>\<open>checkBackend\<close>: the outcome of the health request is the first argument. The result
  is the returned boolean and the application afterwards.\<close>

definition checkBackend :: "unit fetch_outcome \<Rightarrow> app \<Rightarrow> bool \<times> app" where
  "checkBackend r a =
     (let a1 = fetch (backendUrl (state a) @ ascii ''/health'') GET NoBody a
      in (case r of
            FetchRejected \<Rightarrow>
              (False, updateConnectionStatus disconnected
                        (console_error ''Backend check failed:'' NetworkError a1))
          | FetchResponse status body \<Rightarrow>
              (if ok status then
                 (case body of
                    None \<Rightarrow>
                      (False, updateConnectionStatus disconnected
                                (console_error ''Backend check failed:'' SyntaxError a1))
                  | Some data \<Rightarrow> (True, updateConnectionStatus connected a1))
               else (False, updateConnectionStatus disconnected a1))))"

definition checkOllama :: "unit fetch_outcome \<Rightarrow> app \<Rightarrow> bool \<times> app" where
  "checkOllama r a =
     (let a1 = fetch (apiUrl (state a) @ ascii ''/api/tags'') GET NoBody a
      in (case r of
            FetchRejected \<Rightarrow> (False, a1)
          | FetchResponse status body \<Rightarrow> (ok status, a1)))"

definition set_loadingStatus :: "loading_status \<Rightarrow> app \<Rightarrow> app" where
  "set_loadingStatus t a = a\<lparr>elements := (elements a)\<lparr>loadingStatus := t\<rparr>\<rparr>"

definition setTimeout :: "callback \<Rightarrow> nat \<Rightarrow> app \<Rightarrow> app" where
  "setTimeout f delay a = a\<lparr>timers := timers a @ [(delay, f)]\<rparr>"

text \<open>\<open>initializeApp\<close>: \<open>rb\<close> is the outcome of the backend's health request, \<open>ro\<close> the
  outcome of the request to Ollama, should it be made.\<close>

definition initializeApp :: "unit fetch_outcome \<Rightarrow> unit fetch_outcome \<Rightarrow> app \<Rightarrow> app" where
  "initializeApp rb ro a =
     (let a1 = set_loadingStatus CheckingBackendConnection a;
          (backendOk, a2) = checkBackend rb a1
      in if \<not> backendOk then set_loadingStatus BackendNotConnected a2
         else
           let a3 = set_loadingStatus CheckingOllama a2;
               (ollamaOk, a4) = checkOllama ro a3;
               a5 = (if \<not> ollamaOk then set_loadingStatus OllamaNotRunning a4
                     else set_loadingStatus LoadingPhi3Mini a4)
           in setTimeout (FinalInitialization ollamaOk) 1000 a5)"

text \<open>The body of the callback, run when its timeout fires. The first message ends with
  the rocket U+1F680, a surrogate pair.\<close>

definition run_callback :: "callback \<Rightarrow> app \<Rightarrow> app" where
  "run_callback f a =
     (case f of
        FinalInitialization ollamaOk \<Rightarrow>
          showNotification
            (if ollamaOk then
               ascii ''Concepta ready! Using Phi-3 Mini (3.8B) '' @ [0xD83D, 0xDE80]
             else ascii ''Concepta ready! Using mock responses (Start Ollama for AI)'')
            (if ollamaOk then success else warning)
            (a\<lparr>elements := (elements a)
                \<lparr>loadingScreen_hidden := True, body_overflow_auto := True\<rparr>\<rparr>))"

section \<open>Generation\<close>

text \<open>Each generation function takes the outcome of its \<open>fetch\<close> as first argument; the
  outcome is looked at only when the request has been issued.\<close>

definition renderExplanation :: "explain_data \<Rightarrow> app \<Rightarrow> app" where
  "renderExplanation data a = set_output explainOutput (ExplanationOutput data) a"

definition generateExplanation_catch :: "js_error \<Rightarrow> app \<Rightarrow> app" where
  "generateExplanation_catch e a =
     showNotification (ascii ''Generation failed. Check console.'') error
       (showError explainOutput
          (ascii (''<h4>Failed to generate explanation</h4><p>Try:</p><ul>''
                  @ ''<li>Shorter topic (under 500 chars)</li>''
                  @ ''<li>Check backend is running</li>''
                  @ ''<li>Ensure Ollama is running</li></ul>''))
          (console_error ''Error:'' e a))"

definition generateExplanation :: "explain_data fetch_outcome \<Rightarrow> app \<Rightarrow> app" where
  "generateExplanation r a =
     (let topic = trim (input_value (elements a) topicInput)
      in if topic = [] then
           showNotification (ascii ''Please enter a topic to explain'') warning a
         else if length topic > 500 then
           set_input topicInput (substring0 topic 500)
             (showNotification (ascii ''Topic too long. Limited to 500 chars for Phi-3.'')
                warning a)
         else
           let a1 = showLoading explainOutput (ascii ''Generating with Phi-3 Mini...'') a;
               a2 = fetch (backendUrl (state a1) @ ascii ''/explain'') POST
                      (ExplainBody topic (currentDifficulty (state a1)) (model (state a1))) a1
           in (case r of
                 FetchRejected \<Rightarrow> generateExplanation_catch NetworkError a2
               | FetchResponse status body \<Rightarrow>
                   (if \<not> ok status then generateExplanation_catch (ServerError status) a2
                    else
                      (case body of
                         None \<Rightarrow> generateExplanation_catch SyntaxError a2
                       | Some data \<Rightarrow>
                           showNotification (ascii ''Explanation generated with Phi-3!'')
                             success (renderExplanation data a2)))))"

definition renderSummary :: "summary_data \<Rightarrow> app \<Rightarrow> app" where
  "renderSummary data a = set_output summaryOutput (SummaryOutput data) a"

definition summarizeNotes_catch :: "js_error \<Rightarrow> app \<Rightarrow> app" where
  "summarizeNotes_catch e a =
     showNotification (ascii ''Summary failed'') error
       (showError summaryOutput (ascii ''Failed to summarize. Try shorter notes.'')
          (console_error ''Error:'' e a))"

definition summarizeNotes :: "summary_data fetch_outcome \<Rightarrow> app \<Rightarrow> app" where
  "summarizeNotes r a =
     (let notes = trim (input_value (elements a) notesInput)
      in if notes = [] then
           showNotification (ascii ''Please enter notes to summarize'') warning a
         else if length notes > 2000 then
           set_input notesInput (substring0 notes 2000)
             (showNotification (ascii ''Notes too long. Limited to 2000 chars.'') info a)
         else
           let a1 = showLoading summaryOutput (ascii ''Summarizing with Phi-3...'') a;
               a2 = fetch (backendUrl (state a1) @ ascii ''/summarize'') POST
                      (SummarizeBody notes (summaryLength (elements a1)) (model (state a1))) a1
           in (case r of
                 FetchRejected \<Rightarrow> summarizeNotes_catch NetworkError a2
               | FetchResponse status body \<Rightarrow>
                   (if \<not> ok status then summarizeNotes_catch (ServerError status) a2
                    else
                      (case body of
                         None \<Rightarrow> summarizeNotes_catch SyntaxError a2
                       | Some data \<Rightarrow>
                           showNotification (ascii ''Notes summarized!'') success
                             (renderSummary data a2)))))"

text \<open>\<open>renderQuiz\<close>: \<open>data.questions || []\<close>, the header, and the section chosen by
  \<open>questions.length === 0\<close>.\<close>

definition renderQuiz :: "quiz_data \<Rightarrow> app \<Rightarrow> app" where
  "renderQuiz data a =
     (let qs = (case questions data of None \<Rightarrow> [] | Some l \<Rightarrow> l)
      in set_output quizOutput
           (QuizOutput (length qs) (difficulty data)
              (if length qs = 0 then NoQuestionsGenerated else QuestionsContainer qs))
           a)"

definition generateQuiz_catch :: "js_error \<Rightarrow> app \<Rightarrow> app" where
  "generateQuiz_catch e a =
     showNotification (ascii ''Quiz generation failed'') error
       (showError quizOutput (ascii ''Failed to generate quiz. Try more focused content.'')
          (console_error ''Error:'' e a))"

text \<open>After \<open>renderQuiz\<close> the function reads \<open>data.questions.length\<close>: with \<open>questions\<close>
  missing that throws a TypeError inside the \<open>try\<close>.\<close>

definition generateQuiz :: "quiz_data fetch_outcome \<Rightarrow> app \<Rightarrow> app" where
  "generateQuiz r a =
     (let content = trim (input_value (elements a) quizInput)
      in if content = [] then
           showNotification (ascii ''Please enter content for quiz'') warning a
         else if length content > 1000 then
           set_input quizInput (substring0 content 1000)
             (showNotification (ascii ''Content too long. Limited to 1000 chars.'') info a)
         else
           let a1 = showLoading quizOutput (ascii ''Creating quiz with Phi-3...'') a;
               a2 = fetch (backendUrl (state a1) @ ascii ''/quiz'') POST
                      (QuizBody content (quizType (elements a1)) (quizDifficulty (elements a1))
                         (questionCount (elements a1)) (model (state a1))) a1
           in (case r of
                 FetchRejected \<Rightarrow> generateQuiz_catch NetworkError a2
               | FetchResponse status body \<Rightarrow>
                   (if \<not> ok status then generateQuiz_catch (ServerError status) a2
                    else
                      (case body of
                         None \<Rightarrow> generateQuiz_catch SyntaxError a2
                       | Some data \<Rightarrow>
                           (let a3 = renderQuiz data a2
                            in (case questions data of
                                  None \<Rightarrow> generateQuiz_catch TypeError a3
                                | Some qs \<Rightarrow>
                                    showNotification
                                      (ascii (''Quiz generated with '' @ number_text (length qs)
                                              @ '' questions!''))
                                      success a3))))))"

definition generateFlashcards_catch :: "js_error \<Rightarrow> app \<Rightarrow> app" where
  "generateFlashcards_catch e a =
     showNotification (ascii ''Failed to generate flashcards'') error
       (console_error ''Error:'' e a)"

definition generateFlashcards :: "flashcards_data fetch_outcome \<Rightarrow> app \<Rightarrow> app" where
  "generateFlashcards r a =
     (let content = trim (input_value (elements a) flashcardsInput)
      in if content = [] then
           showNotification (ascii ''Please enter content for flashcards'') warning a
         else if length content > 800 then
           set_input flashcardsInput (substring0 content 800)
             (showNotification (ascii ''Content too long. Limited to 800 chars.'') info a)
         else
           let a1 = fetch (backendUrl (state a) @ ascii ''/flashcards'') POST
                      (FlashcardsBody content 6 (model (state a))) a
           in (case r of
                 FetchRejected \<Rightarrow> generateFlashcards_catch NetworkError a1
               | FetchResponse status body \<Rightarrow>
                   (if \<not> ok status then generateFlashcards_catch (ServerError status) a1
                    else
                      (case body of
                         None \<Rightarrow> generateFlashcards_catch SyntaxError a1
                       | Some data \<Rightarrow>
                           (let a2 = a1\<lparr>state := (state a1)
                                       \<lparr>flashcards :=
                                          (case flashcards_field data of None \<Rightarrow> []
                                           | Some cards \<Rightarrow> cards),
                                        currentFlashcardIndex := 0,
                                        isFlashcardFlipped := False\<rparr>\<rparr>
                            in (case updateFlashcardDisplay a2 of
                                  None \<Rightarrow> generateFlashcards_catch TypeError a2
                                | Some a3 \<Rightarrow>
                                    showNotification
                                      (ascii (''Generated ''
                                              @ number_text (length (flashcards (state a3)))
                                              @ '' flashcards with Phi-3!''))
                                      success a3))))))"

section \<open>A JSON instance\<close>

text \<open>
  An instance of the platform's JSON on decks and settings, for the examples below.
  \<open>deck_json\<close> is the text \<open>JSON.stringify\<close> writes for a deck whose strings hold no
  control character and no lone surrogate: the cards in order, each an object with the
  properties \<open>question\<close> and \<open>answer\<close>, a quotation mark and a reverse solidus escaped by
  a reverse solidus. \<open>deck_of_json\<close> reads exactly such texts and fails on every other
  text; \<open>settings_of_json\<close> does the same for a settings object with its three properties.
\<close>

definition json_quote :: "jsstring \<Rightarrow> jsstring" where
  "json_quote s =
     [0x22] @ concat (map (\<lambda>c. if c = 0x22 \<or> c = 0x5C then [0x5C, c] else [c]) s) @ [0x22]"

definition question_key :: jsstring where
  "question_key = ascii ''{'' @ [0x22] @ ascii ''question'' @ [0x22] @ ascii '':''"

definition answer_key :: jsstring where
  "answer_key = ascii '','' @ [0x22] @ ascii ''answer'' @ [0x22] @ ascii '':''"

definition card_json :: "flashcard \<Rightarrow> jsstring" where
  "card_json c =
     question_key @ json_quote (question c) @ answer_key @ json_quote (answer c) @ ascii ''}''"

fun join_comma :: "jsstring list \<Rightarrow> jsstring" where
  "join_comma [] = []"
| "join_comma [x] = x"
| "join_comma (x # y # ys) = x @ ascii '','' @ join_comma (y # ys)"

definition deck_json :: "flashcard list \<Rightarrow> jsstring" where
  "deck_json cards = ascii ''['' @ join_comma (map card_json cards) @ ascii '']''"

fun read_chars :: "jsstring \<Rightarrow> (jsstring \<times> jsstring) option" where
  "read_chars [] = None"
| "read_chars (c # cs) =
     (if c = 0x22 then Some ([], cs)
      else if c = 0x5C then
        (case cs of
           [] \<Rightarrow> None
         | d # ds \<Rightarrow>
             (if d = 0x22 \<or> d = 0x5C then
                (case read_chars ds of None \<Rightarrow> None | Some (s, r) \<Rightarrow> Some (d # s, r))
              else None))
      else (case read_chars cs of None \<Rightarrow> None | Some (s, r) \<Rightarrow> Some (c # s, r)))"

definition read_string :: "jsstring \<Rightarrow> (jsstring \<times> jsstring) option" where
  "read_string s = (case s of [] \<Rightarrow> None | c # cs \<Rightarrow> if c = 0x22 then read_chars cs else None)"

definition expect :: "jsstring \<Rightarrow> jsstring \<Rightarrow> jsstring option" where
  "expect p s = (if take (length p) s = p then Some (drop (length p) s) else None)"

definition read_card :: "jsstring \<Rightarrow> (flashcard \<times> jsstring) option" where
  "read_card s =
     (case expect question_key s of
        None \<Rightarrow> None
      | Some s1 \<Rightarrow>
          (case read_string s1 of
             None \<Rightarrow> None
           | Some (q, s2) \<Rightarrow>
               (case expect answer_key s2 of
                  None \<Rightarrow> None
                | Some s3 \<Rightarrow>
                    (case read_string s3 of
                       None \<Rightarrow> None
                     | Some (an, s4) \<Rightarrow>
                         (case expect (ascii ''}'') s4 of
                            None \<Rightarrow> None
                          | Some s5 \<Rightarrow> Some (\<lparr>question = q, answer = an\<rparr>, s5))))))"

fun read_cards :: "nat \<Rightarrow> jsstring \<Rightarrow> flashcard list option" where
  "read_cards 0 s = None"
| "read_cards (Suc n) s =
     (case read_card s of
        None \<Rightarrow> None
      | Some (c, r) \<Rightarrow>
          (case r of
             [] \<Rightarrow> None
           | x # r' \<Rightarrow>
               (if x = 0x5D then (if r' = [] then Some [c] else None)
                else if x = 0x2C then
                  (case read_cards n r' of None \<Rightarrow> None | Some cs \<Rightarrow> Some (c # cs))
                else None)))"

definition deck_of_json :: "jsstring \<Rightarrow> flashcard list option" where
  "deck_of_json s =
     (case s of
        [] \<Rightarrow> None
      | x # r \<Rightarrow>
          (if x \<noteq> 0x5B then None
           else if r = [0x5D] then Some []
           else read_cards (length r) r))"

definition theme_key :: jsstring where
  "theme_key = ascii ''{'' @ [0x22] @ ascii ''theme'' @ [0x22] @ ascii '':''"

definition model_key :: jsstring where
  "model_key = ascii '','' @ [0x22] @ ascii ''model'' @ [0x22] @ ascii '':''"

definition apiUrl_key :: jsstring where
  "apiUrl_key = ascii '','' @ [0x22] @ ascii ''apiUrl'' @ [0x22] @ ascii '':''"

definition settings_of_json :: "jsstring \<Rightarrow> settings option" where
  "settings_of_json s =
     (case expect theme_key s of
        None \<Rightarrow> None
      | Some s1 \<Rightarrow>
          (case read_string s1 of
             None \<Rightarrow> None
           | Some (t, s2) \<Rightarrow>
               (case expect model_key s2 of
                  None \<Rightarrow> None
                | Some s3 \<Rightarrow>
                    (case read_string s3 of
                       None \<Rightarrow> None
                     | Some (m, s4) \<Rightarrow>
                         (case expect apiUrl_key s4 of
                            None \<Rightarrow> None
                          | Some s5 \<Rightarrow>
                              (case read_string s5 of
                                 None \<Rightarrow> None
                               | Some (u, s6) \<Rightarrow>
                                   (if s6 = ascii ''}'' then
                                      Some \<lparr>settings_theme = Some t, settings_model = Some m,
                                            settings_apiUrl = Some u\<rparr>
                                    else None)))))))"

section \<open>Example states\<close>

text \<open>The states the examples below start from: a deck of three cards with the cursor on
  the last card and the card flipped, two values of \<open>Math.random()\<close>, inputs longer than every limit, a storage whose items
  are not JSON, an input within the limits, and a stored deck beside an empty deck.\<close>

definition card :: "string \<Rightarrow> string \<Rightarrow> flashcard" where
  "card q an = \<lparr>question = ascii q, answer = ascii an\<rparr>"

definition example_deck :: "flashcard list" where
  "example_deck = [card ''Q1'' ''A1'', card ''Q2'' ''A2'', card ''Q3'' ''A3'']"

definition example_app :: app where
  "example_app =
     initial_app\<lparr>state := initial_state
       \<lparr>flashcards := example_deck, currentFlashcardIndex := 2, isFlashcardFlipped := True\<rparr>\<rparr>"

definition one_half :: double where
  "one_half = \<lparr>mantissa = 1, exponent = - 1\<rparr>"

definition tie_double :: double where
  "tie_double = \<lparr>mantissa = 6004799503160661, exponent = - 53\<rparr>"

definition long_input_app :: app where
  "long_input_app =
     initial_app\<lparr>elements := initial_dom\<lparr>input_value := (\<lambda>f. replicate 2001 0x61)\<rparr>\<rparr>"

definition malformed_storage_app :: app where
  "malformed_storage_app =
     initial_app\<lparr>localStorage :=
       [''concepta_settings'' \<mapsto> ascii ''{not json'', ''concepta_flashcards'' \<mapsto> ascii ''{not json'']\<rparr>"

definition quiz_input_app :: app where
  "quiz_input_app =
     initial_app\<lparr>elements := initial_dom\<lparr>input_value := (\<lambda>f. ascii ''cell biology'')\<rparr>\<rparr>"

definition deck_input_app :: app where
  "deck_input_app =
     example_app\<lparr>elements := initial_dom\<lparr>input_value := (\<lambda>f. ascii ''cell biology'')\<rparr>\<rparr>"

definition stored_deck_app :: app where
  "stored_deck_app =
     initial_app\<lparr>localStorage := [''concepta_flashcards'' \<mapsto> deck_json example_deck]\<rparr>"

section \<open>Flashcard navigation\<close>

lemma state_display_or_throw: "state (display_or_throw a) = state a"
  by (simp add: display_or_throw_def updateFlashcardDisplay_def uncaught_def Let_def)

lemma navigateFlashcard_empty: "flashcards (state a) = [] \<Longrightarrow> navigateFlashcard d a = a"
  by (simp add: navigateFlashcard_def)

lemma state_navigateFlashcard:
  "flashcards (state a) \<noteq> [] \<Longrightarrow>
   state (navigateFlashcard d a) =
     (state a)\<lparr>currentFlashcardIndex :=
        (let n = currentFlashcardIndex (state a) + d;
             n = (if n < 0 then int (length (flashcards (state a))) - 1 else n)
         in if n \<ge> int (length (flashcards (state a))) then 0 else n),
       isFlashcardFlipped := False\<rparr>"
  by (simp add: navigateFlashcard_def state_display_or_throw Let_def)

lemma navigateFlashcard_index:
  assumes "flashcards (state a) \<noteq> []"
    and "0 \<le> currentFlashcardIndex (state a)"
    and "currentFlashcardIndex (state a) < int (length (flashcards (state a)))"
    and "d = 1 \<or> d = -1"
  shows "currentFlashcardIndex (state (navigateFlashcard d a)) =
     (currentFlashcardIndex (state a) + d + int (length (flashcards (state a))))
       mod int (length (flashcards (state a)))"
proof -
  define i where "i = currentFlashcardIndex (state a)"
  define n where "n = int (length (flashcards (state a)))"
  have n: "0 < n" using assms(1) by (simp add: n_def)
  have i: "0 \<le> i" "i < n" using assms(2,3) by (simp_all add: i_def n_def)
  have "currentFlashcardIndex (state (navigateFlashcard d a)) =
      (let m = i + d; m = (if m < 0 then n - 1 else m) in if m \<ge> n then 0 else m)"
    using assms(1) unfolding i_def n_def by (simp add: state_navigateFlashcard Let_def)
  also have "\<dots> = (i + d + n) mod n"
  proof -
    consider "d = 1" "i + 1 = n" | "d = 1" "i + 1 < n" | "d = -1" "i = 0" | "d = -1" "0 < i"
      using assms(4) i by fastforce
    then show ?thesis
    proof cases
      case 1
      then have "(i + d + n) mod n = (n + n) mod n" by simp
      with 1 n show ?thesis by (simp add: Let_def)
    next
      case 2
      then have "(i + d + n) mod n = (i + 1) mod n" by simp
      with 2 i show ?thesis by (simp add: Let_def)
    next
      case 3
      then have e: "i + d + n = n - 1" by simp
      have "(n - 1) mod n = n - 1" using n by (intro mod_pos_pos_trivial) simp_all
      with 3 n show ?thesis unfolding e by (simp add: Let_def)
    next
      case 4
      then have e: "i + d + n = i - 1 + n" by simp
      have "(i - 1 + n) mod n = i - 1" using 4 i by simp
      with 4 i show ?thesis unfolding e by (simp add: Let_def)
    qed
  qed
  finally show ?thesis by (simp add: i_def n_def)
qed

lemma navigateFlashcard_next_iter:
  assumes "flashcards (state a) \<noteq> []"
    and "0 \<le> currentFlashcardIndex (state a)"
    and "currentFlashcardIndex (state a) < int (length (flashcards (state a)))"
  shows "flashcards (state ((navigateFlashcard 1 ^^ k) a)) = flashcards (state a) \<and>
     currentFlashcardIndex (state ((navigateFlashcard 1 ^^ k) a)) =
       (currentFlashcardIndex (state a) + int k) mod int (length (flashcards (state a)))"
proof (induction k)
  case 0
  from assms show ?case by simp
next
  case (Suc k)
  let ?b = "(navigateFlashcard 1 ^^ k) a"
  let ?n = "int (length (flashcards (state a)))"
  have fs: "flashcards (state ?b) = flashcards (state a)" using Suc.IH by simp
  have ix: "currentFlashcardIndex (state ?b) = (currentFlashcardIndex (state a) + int k) mod ?n"
    using Suc.IH by simp
  have n: "0 < ?n" using assms(1) by simp
  have ne: "flashcards (state ?b) \<noteq> []" using fs assms(1) by simp
  have lo: "0 \<le> currentFlashcardIndex (state ?b)" using ix n by simp
  have hi: "currentFlashcardIndex (state ?b) < int (length (flashcards (state ?b)))"
    using ix n fs by simp
  have "currentFlashcardIndex (state (navigateFlashcard 1 ?b)) =
      (currentFlashcardIndex (state ?b) + 1 + ?n) mod ?n"
    using navigateFlashcard_index [OF ne lo hi, of 1] fs by simp
  also have "\<dots> = (currentFlashcardIndex (state ?b) + 1) mod ?n"
    by simp
  also have "\<dots> = (currentFlashcardIndex (state a) + int k + 1) mod ?n"
    unfolding ix by (simp add: mod_add_left_eq)
  also have "\<dots> = (currentFlashcardIndex (state a) + int (Suc k)) mod ?n"
    by (simp add: ac_simps)
  finally have "currentFlashcardIndex (state (navigateFlashcard 1 ?b)) =
      (currentFlashcardIndex (state a) + int (Suc k)) mod ?n" .
  moreover have "flashcards (state (navigateFlashcard 1 ?b)) = flashcards (state a)"
    using ne fs by (simp add: state_navigateFlashcard)
  ultimately show ?case by simp
qed

text \<open>
  Claim C1. With an empty deck \<open>navigateFlashcard\<close> changes nothing. With a deck of length
  \<open>len \<ge> 1\<close>, a current index \<open>i\<close> with \<open>0 \<le> i < len\<close> and a direction \<open>+1\<close> or \<open>-1\<close>,
  it sets the index to \<open>(i + direction + len) mod len\<close>, resets the flipped flag, keeps the
  deck, and \<open>len\<close> steps forward bring the cursor back to \<open>i\<close>.
\<close>

theorem navigateFlashcard_circular:
  "(flashcards (state a) = [] \<longrightarrow> navigateFlashcard direction a = a) \<and>
   (flashcards (state a) \<noteq> [] \<and> 0 \<le> currentFlashcardIndex (state a) \<and>
    currentFlashcardIndex (state a) < int (length (flashcards (state a))) \<and>
    (direction = 1 \<or> direction = -1) \<longrightarrow>
      currentFlashcardIndex (state (navigateFlashcard direction a)) =
        (currentFlashcardIndex (state a) + direction + int (length (flashcards (state a))))
          mod int (length (flashcards (state a))) \<and>
      \<not> isFlashcardFlipped (state (navigateFlashcard direction a)) \<and>
      flashcards (state (navigateFlashcard direction a)) = flashcards (state a) \<and>
      currentFlashcardIndex
        (state ((navigateFlashcard 1 ^^ length (flashcards (state a))) a)) =
        currentFlashcardIndex (state a))"
proof (intro conjI impI)
  assume "flashcards (state a) = []"
  then show "navigateFlashcard direction a = a" by (rule navigateFlashcard_empty)
next
  assume h: "flashcards (state a) \<noteq> [] \<and> 0 \<le> currentFlashcardIndex (state a) \<and>
    currentFlashcardIndex (state a) < int (length (flashcards (state a))) \<and>
    (direction = 1 \<or> direction = -1)"
  then show "currentFlashcardIndex (state (navigateFlashcard direction a)) =
        (currentFlashcardIndex (state a) + direction + int (length (flashcards (state a))))
          mod int (length (flashcards (state a)))"
    by (simp add: navigateFlashcard_index)
  from h show "\<not> isFlashcardFlipped (state (navigateFlashcard direction a))"
    by (simp add: state_navigateFlashcard)
  from h show "flashcards (state (navigateFlashcard direction a)) = flashcards (state a)"
    by (simp add: state_navigateFlashcard)
  from h have "currentFlashcardIndex
        (state ((navigateFlashcard 1 ^^ length (flashcards (state a))) a)) =
        (currentFlashcardIndex (state a) + int (length (flashcards (state a))))
          mod int (length (flashcards (state a)))"
    using navigateFlashcard_next_iter [of a "length (flashcards (state a))"] by simp
  with h show "currentFlashcardIndex
        (state ((navigateFlashcard 1 ^^ length (flashcards (state a))) a)) =
        currentFlashcardIndex (state a)"
    by simp
qed

lemma example_app_simps:
  "flashcards (state example_app) = example_deck"
  "currentFlashcardIndex (state example_app) = 2"
  "isFlashcardFlipped (state example_app)"
  "length example_deck = 3"
  "example_deck \<noteq> []"
  "flashcards (state initial_app) = []"
  by (simp_all add: example_app_def example_deck_def initial_app_def initial_state_def)

text \<open>The empty deck of the constructor, and a deck of three cards with the cursor on the
  last one: forward wraps to 0, backward gives 1, three steps forward return to 2.\<close>

theorem navigateFlashcard_circular_witness:
  "navigateFlashcard 1 initial_app = initial_app \<and>
   currentFlashcardIndex (state (navigateFlashcard 1 example_app)) = 0 \<and>
   currentFlashcardIndex (state (navigateFlashcard (- 1) example_app)) = 1 \<and>
   \<not> isFlashcardFlipped (state (navigateFlashcard 1 example_app)) \<and>
   currentFlashcardIndex (state ((navigateFlashcard 1 ^^ 3) example_app)) = 2"
proof -
  have 1: "navigateFlashcard 1 initial_app = initial_app"
    using navigateFlashcard_circular [of initial_app 1] by (simp add: example_app_simps)
  have 2: "currentFlashcardIndex (state (navigateFlashcard 1 example_app)) = 0 \<and>
      \<not> isFlashcardFlipped (state (navigateFlashcard 1 example_app)) \<and>
      currentFlashcardIndex (state ((navigateFlashcard 1 ^^ 3) example_app)) = 2"
    using navigateFlashcard_circular [of example_app 1] by (simp add: example_app_simps)
  have 3: "currentFlashcardIndex (state (navigateFlashcard (- 1) example_app)) = 1"
    using navigateFlashcard_circular [of example_app "- 1"] by (simp add: example_app_simps)
  from 1 2 3 show ?thesis by simp
qed

section \<open>Flipping\<close>

text \<open>\<open>flipFlashcard\<close> toggles the flag in every state, so two calls restore it.\<close>

lemma flipFlashcard_toggles:
  "isFlashcardFlipped (state (flipFlashcard a)) = (\<not> isFlashcardFlipped (state a))"
  by (simp add: flipFlashcard_def state_display_or_throw)

lemma flipFlashcard_twice:
  "isFlashcardFlipped (state (flipFlashcard (flipFlashcard a))) = isFlashcardFlipped (state a)"
  by (simp add: flipFlashcard_toggles)

text \<open>
  Claim C2. The claim asks that \<open>flipFlashcard\<close> leaves the state unchanged when the deck is
  empty. The function has no guard for the empty deck, unlike \<open>navigateFlashcard\<close>,
  \<open>shuffleFlashcards\<close> and \<open>saveFlashcards\<close>: in the constructor's state, whose deck is
  empty, it sets \<open>isFlashcardFlipped\<close>, while the card on the page stays unflipped.
\<close>

theorem flipFlashcard_empty_deck_not_noop:
  "flashcards (state initial_app) = [] \<and>
   \<not> isFlashcardFlipped (state initial_app) \<and>
   isFlashcardFlipped (state (flipFlashcard initial_app)) \<and>
   \<not> flashcard_flipped (elements (flipFlashcard initial_app)) \<and>
   flipFlashcard initial_app \<noteq> initial_app"
proof -
  have 1: "isFlashcardFlipped (state (flipFlashcard initial_app))"
    by (simp add: flipFlashcard_toggles initial_app_def initial_state_def)
  have 2: "\<not> isFlashcardFlipped (state initial_app)"
    by (simp add: initial_app_def initial_state_def)
  from 1 2 have "flipFlashcard initial_app \<noteq> initial_app" by metis
  moreover have "\<not> flashcard_flipped (elements (flipFlashcard initial_app))"
    by (simp add: flipFlashcard_def display_or_throw_def updateFlashcardDisplay_def
        initial_app_def initial_state_def)
  moreover have "flashcards (state initial_app) = []"
    by (simp add: initial_app_def initial_state_def)
  ultimately show ?thesis using 1 2 by simp
qed

section \<open>Shuffling\<close>

text \<open>\<open>below_one\<close> is the comparison of the double's value with 1.\<close>

lemma below_one_iff: "below_one d \<longleftrightarrow> double_value d < 1"
proof (cases "0 \<le> exponent d")
  case True
  have v: "double_value d = real (mantissa d * 2 ^ nat (exponent d))"
    using True by (simp add: double_value_def power_int_def)
  have "real (mantissa d * 2 ^ nat (exponent d)) < real 1 \<longleftrightarrow>
      mantissa d * 2 ^ nat (exponent d) < 1"
    by (rule of_nat_less_iff)
  also have "\<dots> \<longleftrightarrow> mantissa d = 0" by simp
  finally show ?thesis using True by (simp add: below_one_def v)
next
  case False
  define k where "k = nat (- exponent d)"
  have v: "double_value d = real (mantissa d) / 2 ^ k"
    using False by (simp add: double_value_def power_int_def k_def field_simps)
  have "real (mantissa d) / 2 ^ k < 1 \<longleftrightarrow> real (mantissa d) < real (2 ^ k)"
    by (simp add: field_simps)
  also have "\<dots> \<longleftrightarrow> mantissa d < 2 ^ k" by (rule of_nat_less_iff)
  finally have "double_value d < 1 \<longleftrightarrow> mantissa d < 2 ^ k" by (simp add: v)
  moreover have "mantissa d = 0 \<Longrightarrow> mantissa d < 2 ^ k" by simp
  ultimately show ?thesis using False by (auto simp add: below_one_def k_def)
qed

lemma bit_length_bounds: "0 < n \<Longrightarrow> 2 ^ (bit_length n - 1) \<le> n \<and> n < 2 ^ bit_length n"
proof (induction n rule: bit_length.induct)
  case (1 n)
  show ?case
  proof (cases "n div 2 = 0")
    case True
    with "1.prems" have "n = 1" by (simp add: div_eq_0_iff) 
    then show ?thesis by (simp add: bit_length.simps)
  next
    case False
    then have ih: "2 ^ (bit_length (n div 2) - 1) \<le> n div 2" "n div 2 < 2 ^ bit_length (n div 2)"
      using "1.IH" "1.prems" by simp_all
    have pos: "0 < bit_length (n div 2)" using False by (simp add: bit_length.simps)
    have b: "bit_length n = Suc (bit_length (n div 2))" using "1.prems" by (simp add: bit_length.simps)
    have "2 ^ (bit_length n - 1) = 2 * 2 ^ (bit_length (n div 2) - 1)"
      using pos by (simp add: b power_eq_if)
    also have "\<dots> \<le> 2 * (n div 2)" using ih(1) by simp
    also have "\<dots> \<le> n" by simp
    finally have lo: "2 ^ (bit_length n - 1) \<le> n" .
    have "n < 2 * (n div 2) + 2" by presburger
    also have "\<dots> \<le> 2 * 2 ^ bit_length (n div 2)" using ih(2) by simp
    finally have "n < 2 ^ bit_length n" by (simp add: b)
    with lo show ?thesis by simp
  qed
qed

text \<open>Rounding to even: three times the double \<open>6004799503160661 * 2 ^ -53\<close> is
  \<open>2 - 2 ^ -53\<close>, halfway between two doubles; the product is the double 2, and its floor
  is 2, where the floor of the exact product is 1.\<close>

lemma bit_length_example: "bit_length 18014398509481983 = 54"
  by (simp add: bit_length.simps)

lemma times_double_ties_to_even:
  "Math_floor (times_double \<lparr>mantissa = 6004799503160661, exponent = - 53\<rparr> 3) = 2"
  by (simp add: times_double_def Math_floor_def Let_def bit_length_example)

text \<open>The rounded mantissa is within half a unit of the exact one, from above and from
  below.\<close>

lemma rounded_mantissa_le:
  fixes p s :: nat
  assumes "0 < s"
  defines "q \<equiv> p div 2 ^ s" and "r \<equiv> p mod 2 ^ s" and "half \<equiv> 2 ^ (s - 1)"
  shows "(if r > half \<or> (r = half \<and> odd q) then q + 1 else q) * 2 ^ s \<le> p + half"
proof -
  have p: "p = q * 2 ^ s + r" by (simp only: q_def r_def div_mult_mod_eq)
  have two: "(2::nat) ^ s = 2 * half" using assms(1) by (simp add: half_def power_eq_if)
  show ?thesis
  proof (cases "r > half \<or> (r = half \<and> odd q)")
    case True
    then have "half \<le> r" by auto
    have "(q + 1) * 2 ^ s = q * 2 ^ s + 2 * half" by (simp add: two algebra_simps)
    also have "\<dots> \<le> q * 2 ^ s + r + half" using \<open>half \<le> r\<close> by simp
    also have "\<dots> = p + half" by (simp add: p)
    finally have "(q + 1) * 2 ^ s \<le> p + half" .
    moreover have "(if r > half \<or> (r = half \<and> odd q) then q + 1 else q) = q + 1"
      using True by (rule if_P)
    ultimately show ?thesis by (simp only:)
  next
    case False
    have "q * 2 ^ s \<le> p + half" by (simp add: p)
    moreover have "(if r > half \<or> (r = half \<and> odd q) then q + 1 else q) = q"
      using False by (rule if_not_P)
    ultimately show ?thesis by (simp only:)
  qed
qed

lemma rounded_mantissa_ge:
  fixes p s :: nat
  assumes "0 < s"
  defines "q \<equiv> p div 2 ^ s" and "r \<equiv> p mod 2 ^ s" and "half \<equiv> 2 ^ (s - 1)"
  shows "p \<le> (if r > half \<or> (r = half \<and> odd q) then q + 1 else q) * 2 ^ s + half"
proof -
  have p: "p = q * 2 ^ s + r" by (simp only: q_def r_def div_mult_mod_eq)
  have two: "(2::nat) ^ s = 2 * half" using assms(1) by (simp add: half_def power_eq_if)
  have "r < 2 ^ s" by (simp add: r_def)
  then have r2: "r < 2 * half" by (simp only: two)
  show ?thesis
  proof (cases "r > half \<or> (r = half \<and> odd q)")
    case True
    have "p \<le> q * 2 ^ s + 2 * half + half" using r2 by (simp add: p)
    also have "\<dots> = (q + 1) * 2 ^ s + half" by (simp add: two algebra_simps)
    finally have "p \<le> (q + 1) * 2 ^ s + half" .
    moreover have "(if r > half \<or> (r = half \<and> odd q) then q + 1 else q) = q + 1"
      using True by (rule if_P)
    ultimately show ?thesis by (simp only:)
  next
    case False
    then have "r \<le> half" by auto
    then have "p \<le> q * 2 ^ s + half" by (simp add: p)
    moreover have "(if r > half \<or> (r = half \<and> odd q) then q + 1 else q) = q"
      using False by (rule if_not_P)
    ultimately show ?thesis by (simp only:)
  qed
qed

lemma times_double_exact:
  "mantissa d * n < 2 ^ 53 \<Longrightarrow> double_value (times_double d n) = double_value d * real n"
  by (simp add: times_double_def double_value_def)

text \<open>
  The index stays inside the part of the deck still to be shuffled. A double below 1 is
  at most \<open>1 - 2 ^ -53\<close>, and rounding adds at most the fraction \<open>2 ^ -53\<close> of the product,
  so the rounded product of such a double and \<open>n\<close> is below \<open>n\<close>.
\<close>

lemma unit_mantissa_bound:
  fixes m k :: nat
  assumes "m < 2 ^ 53" "m < 2 ^ k"
  shows "(2 ^ 53 + 1) * m < 2 ^ 53 * 2 ^ k"
proof (cases "k \<le> 53")
  case True
  then have le: "(2::nat) ^ k \<le> 2 ^ 53" by (intro power_increasing) simp_all
  have "m + 1 \<le> 2 ^ k" using assms(2) by simp
  then have "(2 ^ 53 + 1) * (m + 1) \<le> (2 ^ 53 + 1) * 2 ^ k" by (rule mult_le_mono2)
  then have "(2 ^ 53 + 1) * m + (2 ^ 53 + 1) \<le> 2 ^ 53 * 2 ^ k + 2 ^ k"
    by (simp add: algebra_simps)
  with le show ?thesis by linarith
next
  case False
  then have "54 \<le> k" by simp
  then have "(2::nat) ^ 54 \<le> 2 ^ k" by (rule power_increasing) simp
  then have ge: "(2::nat) ^ 53 + 1 \<le> 2 ^ k" by simp
  have "(2 ^ 53 + 1) * m < (2 ^ 53 + 1) * 2 ^ 53" using assms(1) by simp
  also have "\<dots> \<le> 2 ^ k * 2 ^ 53" using ge by (rule mult_le_mono1)
  finally show ?thesis by (simp add: mult.commute)
qed

lemma Math_floor_times_double_less:
  assumes m53: "mantissa d < 2 ^ 53" and b1: "below_one d" and n: "0 < n"
  shows "Math_floor (times_double d n) < n"
proof (cases "mantissa d = 0")
  case True
  then show ?thesis using n by (simp add: times_double_def Math_floor_def)
next
  case False
  define m where "m = mantissa d"
  define k where "k = nat (- exponent d)"
  define p where "p = m * n"
  have e: "exponent d < 0" and mk: "m < 2 ^ k"
    using b1 False by (simp_all add: below_one_def m_def k_def)
  have ek: "exponent d = - int k" using e by (simp add: k_def)
  have pk: "p < 2 ^ k * n" using mk n by (simp add: p_def)
  show ?thesis
  proof (cases "p < 2 ^ 53")
    case True
    then have "times_double d n = \<lparr>mantissa = p, exponent = exponent d\<rparr>"
      by (simp add: times_double_def p_def m_def)
    then have "Math_floor (times_double d n) = p div 2 ^ k"
      using e by (simp add: Math_floor_def k_def)
    also have "\<dots> < n" using pk by (simp add: less_mult_imp_div_less mult.commute)
    finally show ?thesis .
  next
    case False
    define s where "s = bit_length p - 53"
    define q where "q = p div 2 ^ s"
    define r where "r = p mod 2 ^ s"
    define half where "half = (2::nat) ^ (s - 1)"
    define q' where "q' = (if r > half \<or> (r = half \<and> odd q) then q + 1 else q)"
    have ppos: "0 < p" using False by (cases "p = 0") simp_all
    have bl: "2 ^ (bit_length p - 1) \<le> p" "p < 2 ^ bit_length p"
      using bit_length_bounds [OF ppos] by simp_all
    have "(2::nat) ^ 53 < 2 ^ bit_length p" using False bl(2) by simp
    then have "53 < bit_length p" by (intro power_less_imp_less_exp [of 2]) simp_all
    then have spos: "0 < s" and bs: "bit_length p - 1 = 53 + (s - 1)" by (simp_all add: s_def)
    have "(2::nat) ^ (bit_length p - 1) = 2 ^ 53 * half"
      by (simp only: bs half_def power_add)
    then have k2: "2 ^ 53 * half \<le> p" using bl(1) by (simp only:)
    have k1: "q' * 2 ^ s \<le> p + half"
      unfolding q'_def q_def r_def half_def by (rule rounded_mantissa_le [OF spos])
    have "2 ^ 53 * (q' * 2 ^ s) \<le> 2 ^ 53 * (p + half)" using k1 by (rule mult_le_mono2)
    also have "\<dots> \<le> 2 ^ 53 * p + p" using k2 by (simp add: algebra_simps)
    also have "\<dots> = ((2 ^ 53 + 1) * m) * n" by (simp add: p_def algebra_simps)
    also have "\<dots> < (2 ^ 53 * 2 ^ k) * n"
      using unit_mantissa_bound [OF _ mk] m53 n by (simp add: m_def)
    finally have "2 ^ 53 * (q' * 2 ^ s) < 2 ^ 53 * (2 ^ k * n)" by (simp add: mult.assoc)
    then have k4: "q' * 2 ^ s < 2 ^ k * n" by simp
    have td: "times_double d n = \<lparr>mantissa = q', exponent = int s - int k\<rparr>"
      using False
      by (simp add: times_double_def Let_def p_def m_def s_def q_def r_def half_def q'_def ek)
    show ?thesis
    proof (cases "k \<le> s")
      case True
      then have sk: "s = (s - k) + k" by simp
      have "Math_floor (times_double d n) = q' * 2 ^ (s - k)"
        using True by (simp add: td Math_floor_def nat_diff_distrib')
      moreover have "(q' * 2 ^ (s - k)) * 2 ^ k < n * 2 ^ k"
        using k4 by (subst (asm) sk) (simp add: power_add mult.assoc mult.commute)
      ultimately show ?thesis by simp
    next
      case False
      then have ks: "k = (k - s) + s" and lt: "s < k" by simp_all
      have "Math_floor (times_double d n) = q' div 2 ^ (k - s)"
        using lt by (simp add: td Math_floor_def nat_diff_distrib')
      moreover have "q' * 2 ^ s < (2 ^ (k - s) * n) * 2 ^ s"
        using k4 by (subst (asm) ks) (simp add: power_add mult.assoc mult.commute mult.left_commute)
      then have "q' < 2 ^ (k - s) * n" by simp
      then have "q' div 2 ^ (k - s) < n" by (simp add: less_mult_imp_div_less mult.commute)
      ultimately show ?thesis by simp
    qed
  qed
qed

text \<open>A value of \<open>Math.random()\<close> gives an index \<open>j\<close> with \<open>0 \<le> j \<le> i\<close>, so that every
  step of the loop swaps two elements of the deck.\<close>

lemma shuffle_index_bound:
  assumes "is_double r" "below_one r"
  shows "Math_floor (times_double r (Suc i + 1)) \<le> Suc i"
proof -
  have "mantissa r < 2 ^ 53" using assms(1) by (simp add: is_double_def)
  then have "Math_floor (times_double r (Suc i + 1)) < Suc i + 1"
    using assms(2) by (intro Math_floor_times_double_less) simp_all
  then show ?thesis by simp
qed

lemma mset_shuffle_loop:
  assumes "\<forall>k. is_double (random k) \<and> below_one (random k)"
  shows "i < length xs \<Longrightarrow> mset (shuffle_loop random k i xs) = mset xs"
proof (induction i arbitrary: k xs)
  case 0
  then show ?case by simp
next
  case (Suc i)
  let ?j = "Math_floor (times_double (random k) (Suc i + 1))"
  have j: "?j < length xs"
    using shuffle_index_bound [of "random k" i] assms Suc.prems by (simp add: le_less_trans)
  let ?ys = "xs[Suc i := xs ! ?j, ?j := xs ! Suc i]"
  have "mset ?ys = mset xs" using j Suc.prems by (simp add: mset_swap)
  moreover have "i < length ?ys" using Suc.prems by simp
  ultimately show ?case using Suc.IH [of ?ys "Suc k"] by (simp add: Let_def)
qed

lemma shuffleFlashcards_empty: "flashcards (state a) = [] \<Longrightarrow> shuffleFlashcards random a = a"
  by (simp add: shuffleFlashcards_def)

lemma state_shuffleFlashcards:
  "flashcards (state a) \<noteq> [] \<Longrightarrow>
   state (shuffleFlashcards random a) =
     (state a)\<lparr>flashcards :=
        shuffle_loop random 0 (length (flashcards (state a)) - 1) (flashcards (state a)),
       currentFlashcardIndex := 0, isFlashcardFlipped := False\<rparr>"
  by (simp add: shuffleFlashcards_def updateFlashcardDisplay_def uncaught_def
      showNotification_def Let_def)

lemma notifications_shuffleFlashcards:
  "flashcards (state a) \<noteq> [] \<Longrightarrow> (\<forall>k. is_double (random k) \<and> below_one (random k)) \<Longrightarrow>
   notifications (shuffleFlashcards random a) =
     notifications a @ [Notification (ascii ''Flashcards shuffled!'') success]"
proof -
  assume ne: "flashcards (state a) \<noteq> []" and r: "\<forall>k. is_double (random k) \<and> below_one (random k)"
  have "mset (shuffle_loop random 0 (length (flashcards (state a)) - 1) (flashcards (state a)))
      = mset (flashcards (state a))"
    using ne by (intro mset_shuffle_loop [OF r]) simp
  then have "shuffle_loop random 0 (length (flashcards (state a)) - 1) (flashcards (state a)) \<noteq> []"
    using ne by (metis mset_zero_iff)
  then show ?thesis using ne
    by (simp add: shuffleFlashcards_def updateFlashcardDisplay_def uncaught_def
      showNotification_def Let_def)
qed

text \<open>
  Claim C3. With an empty deck \<open>shuffleFlashcards\<close> changes nothing. With a deck that is not
  empty and any sequence of values of \<open>Math.random()\<close>, doubles in \<open>[0, 1)\<close>, the deck
  afterwards is a permutation of the deck before (the same multiset of cards, the same
  length), the index is 0 and the flipped flag is false.
\<close>

theorem shuffleFlashcards_permutation:
  "(flashcards (state a) = [] \<longrightarrow> shuffleFlashcards random a = a) \<and>
   (flashcards (state a) \<noteq> [] \<and> (\<forall>k. is_double (random k) \<and> below_one (random k)) \<longrightarrow>
      mset (flashcards (state (shuffleFlashcards random a))) = mset (flashcards (state a)) \<and>
      length (flashcards (state (shuffleFlashcards random a))) = length (flashcards (state a)) \<and>
      currentFlashcardIndex (state (shuffleFlashcards random a)) = 0 \<and>
      \<not> isFlashcardFlipped (state (shuffleFlashcards random a)))"
proof (intro conjI impI)
  assume "flashcards (state a) = []"
  then show "shuffleFlashcards random a = a" by (rule shuffleFlashcards_empty)
next
  assume h: "flashcards (state a) \<noteq> [] \<and> (\<forall>k. is_double (random k) \<and> below_one (random k))"
  then have r: "\<forall>k. is_double (random k) \<and> below_one (random k)" and ne: "flashcards (state a) \<noteq> []"
    by simp_all
  have m: "mset (shuffle_loop random 0 (length (flashcards (state a)) - 1) (flashcards (state a)))
      = mset (flashcards (state a))"
    using ne by (intro mset_shuffle_loop [OF r]) simp
  then show "mset (flashcards (state (shuffleFlashcards random a))) = mset (flashcards (state a))"
    using ne by (simp add: state_shuffleFlashcards)
  then show "length (flashcards (state (shuffleFlashcards random a))) =
      length (flashcards (state a))"
    by (rule mset_eq_length)
  show "currentFlashcardIndex (state (shuffleFlashcards random a)) = 0"
    using ne by (simp add: state_shuffleFlashcards)
  show "\<not> isFlashcardFlipped (state (shuffleFlashcards random a))"
    using ne by (simp add: state_shuffleFlashcards)
qed

lemma example_doubles:
  "is_double one_half" "below_one one_half"
  "is_double tie_double" "below_one tie_double"
  by (simp_all add: one_half_def tie_double_def is_double_def below_one_def)

lemma tie_double_indices:
  "Math_floor (times_double tie_double 3) = 2"
  "Math_floor (times_double tie_double 2) = 1"
proof -
  have "bit_length 18014398509481983 = 54" "bit_length 12009599006321322 = 54"
    by (simp_all add: bit_length.simps)
  then show "Math_floor (times_double tie_double 3) = 2"
    "Math_floor (times_double tie_double 2) = 1"
    by (simp_all add: times_double_def Math_floor_def Let_def tie_double_def)
qed

lemma one_half_indices:
  "Math_floor (times_double one_half 3) = 1"
  "Math_floor (times_double one_half 2) = 1"
  by (simp_all add: times_double_def Math_floor_def Let_def one_half_def)

lemma shuffle_loop_three:
  "shuffle_loop random 0 2 [a, b, c] =
     (let j = Math_floor (times_double (random 0) 3);
          ys = [a, b, c][2 := [a, b, c] ! j, j := c];
          j' = Math_floor (times_double (random 1) 2)
      in ys[1 := ys ! j', j' := ys ! 1])"
proof -
  have "shuffle_loop random 0 (Suc (Suc 0)) [a, b, c] =
     (let j = Math_floor (times_double (random 0) (Suc (Suc 0) + 1));
          ys = [a, b, c][Suc (Suc 0) := [a, b, c] ! j, j := [a, b, c] ! Suc (Suc 0)];
          j' = Math_floor (times_double (random (Suc 0)) (Suc 0 + 1))
      in ys[Suc 0 := ys ! j', j' := ys ! Suc 0])"
    by (simp only: shuffle_loop.simps Let_def)
  moreover have "Suc (Suc 0) = 2" "Suc (Suc 0) + 1 = 3" "Suc 0 + 1 = 2" "Suc 0 = 1"
    "[a, b, c] ! 2 = c"
    by simp_all
  ultimately show ?thesis by (simp only:)
qed

text \<open>With every random value \<open>1/2\<close> the deck of three cards becomes first, third, second;
  with every random value \<open>6004799503160661 * 2 ^ -53\<close> the indices are 2 and 1 and the
  deck stays in its order.\<close>

theorem shuffleFlashcards_permutation_witness:
  "shuffleFlashcards (\<lambda>k. one_half) initial_app = initial_app \<and>
   mset (flashcards (state (shuffleFlashcards (\<lambda>k. one_half) example_app))) = mset example_deck \<and>
   flashcards (state (shuffleFlashcards (\<lambda>k. one_half) example_app)) =
     [card ''Q1'' ''A1'', card ''Q3'' ''A3'', card ''Q2'' ''A2''] \<and>
   currentFlashcardIndex (state (shuffleFlashcards (\<lambda>k. one_half) example_app)) = 0 \<and>
   \<not> isFlashcardFlipped (state (shuffleFlashcards (\<lambda>k. one_half) example_app)) \<and>
   mset (flashcards (state (shuffleFlashcards (\<lambda>k. tie_double) example_app))) = mset example_deck \<and>
   flashcards (state (shuffleFlashcards (\<lambda>k. tie_double) example_app)) =
     [card ''Q1'' ''A1'', card ''Q2'' ''A2'', card ''Q3'' ''A3'']"
proof -
  have v: "flashcards (state (shuffleFlashcards (\<lambda>k. one_half) example_app)) =
     [card ''Q1'' ''A1'', card ''Q3'' ''A3'', card ''Q2'' ''A2'']"
    by (simp add: state_shuffleFlashcards example_app_simps)
      (simp add: example_deck_def shuffle_loop_three one_half_indices)
  have w: "flashcards (state (shuffleFlashcards (\<lambda>k. tie_double) example_app)) =
     [card ''Q1'' ''A1'', card ''Q2'' ''A2'', card ''Q3'' ''A3'']"
    by (simp add: state_shuffleFlashcards example_app_simps)
      (simp add: example_deck_def shuffle_loop_three tie_double_indices)
  have 1: "shuffleFlashcards (\<lambda>k. one_half) initial_app = initial_app"
    using shuffleFlashcards_permutation [of initial_app "\<lambda>k. one_half"]
    by (simp add: example_app_simps)
  have 2: "mset (flashcards (state (shuffleFlashcards (\<lambda>k. one_half) example_app))) =
        mset example_deck \<and>
      currentFlashcardIndex (state (shuffleFlashcards (\<lambda>k. one_half) example_app)) = 0 \<and>
      \<not> isFlashcardFlipped (state (shuffleFlashcards (\<lambda>k. one_half) example_app))"
    using shuffleFlashcards_permutation [of example_app "\<lambda>k. one_half"]
    by (simp add: example_app_simps example_doubles)
  have 3: "mset (flashcards (state (shuffleFlashcards (\<lambda>k. tie_double) example_app))) =
        mset example_deck"
    using shuffleFlashcards_permutation [of example_app "\<lambda>k. tie_double"]
    by (simp add: example_app_simps example_doubles)
  from v w 1 2 3 show ?thesis by simp
qed

section \<open>Saving an empty deck\<close>

text \<open>
  Claim C10. With an empty deck \<open>saveFlashcards\<close> writes nothing to \<open>localStorage\<close>: the
  only change is the warning notification, so a deck persisted earlier stays as it is.
\<close>

theorem saveFlashcards_empty_no_write:
  "flashcards (state a) = [] \<Longrightarrow>
   localStorage (saveFlashcards stringify accepts a) = localStorage a \<and>
   saveFlashcards stringify accepts a =
     a\<lparr>notifications := notifications a @ [Notification (ascii ''No flashcards to save'') warning]\<rparr>"
  by (simp add: saveFlashcards_def showNotification_def)

section \<open>The JSON instance reads back what it writes\<close>

lemma read_chars_quote:
  "read_chars (concat (map (\<lambda>c. if c = 0x22 \<or> c = 0x5C then [0x5C, c] else [c]) s) @ 0x22 # r)
     = Some (s, r)"
  by (induction s) auto

lemma read_string_quote: "read_string (json_quote s @ r) = Some (s, r)"
  using read_chars_quote [of s r] by (simp add: read_string_def json_quote_def)

lemma expect_append: "expect p (p @ r) = Some r"
  by (simp add: expect_def)

lemma read_card_json: "read_card (card_json c @ r) = Some (c, r)"
  by (simp add: read_card_def card_json_def expect_append read_string_quote)

lemma ascii_single [simp]: "ascii '','' = [0x2C]" "ascii '']'' = [0x5D]" "ascii ''['' = [0x5B]"
  by (simp_all add: ascii_def)

lemma read_cards_json:
  "cs \<noteq> [] \<Longrightarrow> length cs \<le> n \<Longrightarrow>
   read_cards n (join_comma (map card_json cs) @ [0x5D]) = Some cs"
proof (induction cs arbitrary: n)
  case Nil
  then show ?case by simp
next
  case (Cons c cs)
  then obtain m where n: "n = Suc m" by (cases n) auto
  show ?case
  proof (cases cs)
    case Nil
    then show ?thesis using n read_card_json [of c "[0x5D]"] by simp
  next
    case (Cons d ds)
    have "read_cards m (join_comma (map card_json cs) @ [0x5D]) = Some cs"
      using Cons.IH [of m] Cons.prems n Cons by simp
    then show ?thesis
      using n Cons read_card_json [of c "0x2C # join_comma (map card_json (d # ds)) @ [0x5D]"]
      by simp
  qed
qed

lemma card_json_nonempty: "card_json c \<noteq> []"
  by (simp add: card_json_def question_key_def ascii_def)

lemma length_join_comma: "length cs \<le> length (join_comma (map card_json cs))"
proof (induction cs rule: induct_list012)
  case 1
  then show ?case by simp
next
  case (2 x)
  then show ?case using card_json_nonempty [of x] by (simp add: Suc_leI)
next
  case (3 x y zs)
  then show ?case by simp
qed

lemma join_comma_nonempty: "cs \<noteq> [] \<Longrightarrow> join_comma (map card_json cs) \<noteq> []"
  using length_join_comma [of cs] by (cases cs) auto

lemma deck_of_json_deck_json: "deck_of_json (deck_json cards) = Some cards"
proof (cases "cards = []")
  case True
  then show ?thesis by (simp add: deck_of_json_def deck_json_def)
next
  case False
  let ?t = "join_comma (map card_json cards) @ [0x5D]"
  have ne: "?t \<noteq> [0x5D]" using join_comma_nonempty [OF False] by simp
  have "length cards \<le> length ?t" using length_join_comma [of cards] by simp
  then have "read_cards (length ?t) ?t = Some cards" using False by (rule read_cards_json [rotated])
  then show ?thesis using ne by (simp add: deck_of_json_def deck_json_def)
qed

lemma deck_json_nonempty: "deck_json cards \<noteq> []"
  by (simp add: deck_json_def)

section \<open>Input limits\<close>

text \<open>Facts about \<open>trim\<close>: the result is no longer than the text, and a result that is not
  empty starts with a character that is not white space.\<close>

lemma length_trim_le: "length (trim s) \<le> length s"
proof -
  have "length (trim s) \<le> length (dropWhile isWhiteSpace s)"
    unfolding trim_def using length_dropWhile_le [of isWhiteSpace "rev (dropWhile isWhiteSpace s)"]
    by simp
  also have "\<dots> \<le> length s" by (rule length_dropWhile_le)
  finally show ?thesis .
qed

lemma trim_prefix:
  "dropWhile isWhiteSpace s = trim s @ rev (takeWhile isWhiteSpace (rev (dropWhile isWhiteSpace s)))"
proof -
  let ?t = "dropWhile isWhiteSpace s"
  have "rev (takeWhile isWhiteSpace (rev ?t) @ dropWhile isWhiteSpace (rev ?t)) =
      rev (dropWhile isWhiteSpace (rev ?t)) @ rev (takeWhile isWhiteSpace (rev ?t))"
    by (rule rev_append)
  moreover have "takeWhile isWhiteSpace (rev ?t) @ dropWhile isWhiteSpace (rev ?t) = rev ?t"
    by (rule takeWhile_dropWhile_id)
  ultimately have "rev (rev ?t) =
      rev (dropWhile isWhiteSpace (rev ?t)) @ rev (takeWhile isWhiteSpace (rev ?t))"
    by (simp only:)
  then show ?thesis by (simp only: trim_def rev_rev_ident)
qed

lemma hd_trim:
  assumes "trim s \<noteq> []"
  shows "\<not> isWhiteSpace (hd (trim s))"
proof -
  let ?t = "dropWhile isWhiteSpace s"
  have ne: "?t \<noteq> []"
  proof
    assume e: "?t = []"
    have "trim s = []" by (simp only: trim_def e rev.simps dropWhile.simps)
    with assms show False by simp
  qed
  then have "\<not> isWhiteSpace (hd ?t)" by (rule hd_dropWhile)
  moreover have "hd ?t = hd (trim s)" using trim_prefix [of s] assms by (metis hd_append2)
  ultimately show ?thesis by simp
qed

lemma trim_nonempty:
  assumes "u \<noteq> []" "\<not> isWhiteSpace (hd u)"
  shows "trim u \<noteq> []"
proof -
  have d: "dropWhile isWhiteSpace u = u" using assms by (cases u) auto
  have "last (rev u) = hd u" using assms(1) by (simp add: last_rev)
  then have "\<not> isWhiteSpace (last (rev u))" using assms(2) by simp
  moreover have "rev u \<noteq> []" using assms(1) by simp
  ultimately have "dropWhile isWhiteSpace (rev u) \<noteq> []"
    by (metis dropWhile_eq_Nil_conv last_in_set)
  then show ?thesis by (simp add: trim_def d)
qed

lemma trim_take_trim:
  assumes "0 < n" "trim s \<noteq> []"
  shows "trim (take n (trim s)) \<noteq> []" "length (trim (take n (trim s))) \<le> n"
proof -
  have "take n (trim s) \<noteq> []" using assms by simp
  moreover have "hd (take n (trim s)) = hd (trim s)" using assms by simp
  ultimately show "trim (take n (trim s)) \<noteq> []" using hd_trim [OF assms(2)] trim_nonempty by metis
  have "length (trim (take n (trim s))) \<le> length (take n (trim s))" by (rule length_trim_le)
  then show "length (trim (take n (trim s))) \<le> n" by simp
qed

lemma elems_simps [simp]:
  "input_value (elements (set_input f v a)) = (input_value (elements a))(f := v)"
  "state (set_input f v a) = state a"
  "requests (set_input f v a) = requests a"
  "notifications (set_input f v a) = notifications a"
  "state (showNotification m k a) = state a"
  "elements (showNotification m k a) = elements a"
  "requests (showNotification m k a) = requests a"
  "notifications (showNotification m k a) = notifications a @ [Notification m k]"
  by (simp_all add: set_input_def showNotification_def)

lemma generateExplanation_too_long:
  assumes "500 < length (trim (input_value (elements a) topicInput))"
  shows "generateExplanation r a =
    set_input topicInput (take 500 (trim (input_value (elements a) topicInput)))
      (showNotification (ascii ''Topic too long. Limited to 500 chars for Phi-3.'') warning a)"
proof -
  have "trim (input_value (elements a) topicInput) \<noteq> []" using assms by auto
  then show ?thesis using assms by (simp add: generateExplanation_def substring0_def Let_def)
qed

lemma generateExplanation_request:
  assumes "trim (input_value (elements a) topicInput) \<noteq> []"
    and "length (trim (input_value (elements a) topicInput)) \<le> 500"
  shows "requests (generateExplanation r a) =
      requests a @ [Fetch (backendUrl (state a) @ ascii ''/explain'') POST
        (ExplainBody (trim (input_value (elements a) topicInput))
           (currentDifficulty (state a)) (model (state a)))] \<and>
    input_value (elements (generateExplanation r a)) = input_value (elements a)"
  using assms
  by (simp add: generateExplanation_def Let_def showLoading_def set_output_def fetch_def
      generateExplanation_catch_def showError_def console_error_def showNotification_def
      renderExplanation_def
      split: fetch_outcome.split option.split)

lemma dom_set_input [simp]:
  "summaryLength (elements (set_input f v a)) = summaryLength (elements a)"
  "quizType (elements (set_input f v a)) = quizType (elements a)"
  "quizDifficulty (elements (set_input f v a)) = quizDifficulty (elements a)"
  "questionCount (elements (set_input f v a)) = questionCount (elements a)"
  by (simp_all add: set_input_def)

lemma summarizeNotes_too_long:
  assumes "2000 < length (trim (input_value (elements a) notesInput))"
  shows "summarizeNotes r a =
    set_input notesInput (take 2000 (trim (input_value (elements a) notesInput)))
      (showNotification (ascii ''Notes too long. Limited to 2000 chars.'') info a)"
proof -
  have "trim (input_value (elements a) notesInput) \<noteq> []" using assms by auto
  then show ?thesis using assms by (simp add: summarizeNotes_def substring0_def Let_def)
qed

lemma summarizeNotes_request:
  assumes "trim (input_value (elements a) notesInput) \<noteq> []"
    and "length (trim (input_value (elements a) notesInput)) \<le> 2000"
  shows "requests (summarizeNotes r a) =
      requests a @ [Fetch (backendUrl (state a) @ ascii ''/summarize'') POST
        (SummarizeBody (trim (input_value (elements a) notesInput))
           (summaryLength (elements a)) (model (state a)))] \<and>
    input_value (elements (summarizeNotes r a)) = input_value (elements a)"
  using assms
  by (simp add: summarizeNotes_def Let_def showLoading_def set_output_def fetch_def
      summarizeNotes_catch_def showError_def console_error_def showNotification_def
      renderSummary_def
      split: fetch_outcome.split option.split)

lemma generateQuiz_too_long:
  assumes "1000 < length (trim (input_value (elements a) quizInput))"
  shows "generateQuiz r a =
    set_input quizInput (take 1000 (trim (input_value (elements a) quizInput)))
      (showNotification (ascii ''Content too long. Limited to 1000 chars.'') info a)"
proof -
  have "trim (input_value (elements a) quizInput) \<noteq> []" using assms by auto
  then show ?thesis using assms by (simp add: generateQuiz_def substring0_def Let_def)
qed

lemma generateQuiz_request:
  assumes "trim (input_value (elements a) quizInput) \<noteq> []"
    and "length (trim (input_value (elements a) quizInput)) \<le> 1000"
  shows "requests (generateQuiz r a) =
      requests a @ [Fetch (backendUrl (state a) @ ascii ''/quiz'') POST
        (QuizBody (trim (input_value (elements a) quizInput))
           (quizType (elements a)) (quizDifficulty (elements a))
           (questionCount (elements a)) (model (state a)))] \<and>
    input_value (elements (generateQuiz r a)) = input_value (elements a)"
  using assms
  by (simp add: generateQuiz_def Let_def showLoading_def set_output_def fetch_def
      generateQuiz_catch_def showError_def console_error_def showNotification_def
      renderQuiz_def
      split: fetch_outcome.split option.split)

lemma generateFlashcards_too_long:
  assumes "800 < length (trim (input_value (elements a) flashcardsInput))"
  shows "generateFlashcards r a =
    set_input flashcardsInput (take 800 (trim (input_value (elements a) flashcardsInput)))
      (showNotification (ascii ''Content too long. Limited to 800 chars.'') info a)"
proof -
  have "trim (input_value (elements a) flashcardsInput) \<noteq> []" using assms by auto
  then show ?thesis using assms by (simp add: generateFlashcards_def substring0_def Let_def)
qed

lemma generateFlashcards_request:
  assumes "trim (input_value (elements a) flashcardsInput) \<noteq> []"
    and "length (trim (input_value (elements a) flashcardsInput)) \<le> 800"
  shows "requests (generateFlashcards r a) =
      requests a @ [Fetch (backendUrl (state a) @ ascii ''/flashcards'') POST
        (FlashcardsBody (trim (input_value (elements a) flashcardsInput)) 6 (model (state a)))] \<and>
    input_value (elements (generateFlashcards r a)) = input_value (elements a)"
  using assms
  by (simp add: generateFlashcards_def Let_def fetch_def updateFlashcardDisplay_def
      generateFlashcards_catch_def console_error_def showNotification_def
      split: fetch_outcome.split option.split)

lemma validateInput_truncates:
  assumes "maxlen < length (input_value (elements a) f)"
  shows "input_value (elements (validateInput f maxlen a)) f =
      take maxlen (input_value (elements a) f) \<and>
    length (input_value (elements (validateInput f maxlen a)) f) = maxlen \<and>
    notifications (validateInput f maxlen a) =
      notifications a @ [Notification
        (ascii (''Limited to '' @ number_text maxlen @ '' characters for Phi-3 optimization''))
        warning] \<and>
    requests (validateInput f maxlen a) = requests a"
  using assms by (simp add: validateInput_def substring0_def)

lemma too_long_resubmit:
  assumes "n < length (trim v)" "0 < n"
  shows "trim (take n (trim v)) \<noteq> []" "length (trim (take n (trim v))) \<le> n"
    "length (take n (trim v)) = n"
proof -
  have ne: "trim v \<noteq> []" using assms(1) by auto
  show "trim (take n (trim v)) \<noteq> []" by (rule trim_take_trim(1) [OF assms(2) ne])
  show "length (trim (take n (trim v))) \<le> n" by (rule trim_take_trim(2) [OF assms(2) ne])
  show "length (take n (trim v)) = n" using assms(1) by simp
qed

text \<open>
  Claim C4, as amended. \<open>validateInput\<close> cuts a value longer than its limit to exactly the
  limit and shows a warning, with no request. When the trimmed text of a submission is longer
  than the limit of its field (500 topic, 2000 notes, 1000 quiz, 800 flashcards), the
  function stores the first limit characters of the trimmed text in the field (exactly the
  limit), shows a warning (topic) or info (the others) notification, and returns without
  issuing the request. Submitting the field again issues the request with its trimmed text,
  which is not empty and at most the limit long, and leaves the field at the limit.
\<close>

theorem input_limit_truncates_and_returns:
  "(maxlen < length (input_value (elements a) f) \<longrightarrow>
      length (input_value (elements (validateInput f maxlen a)) f) = maxlen \<and>
      notifications (validateInput f maxlen a) =
        notifications a @ [Notification
          (ascii (''Limited to '' @ number_text maxlen @ '' characters for Phi-3 optimization''))
          warning] \<and>
      requests (validateInput f maxlen a) = requests a) \<and>
   (500 < length (trim (input_value (elements a) topicInput)) \<longrightarrow>
      input_value (elements (generateExplanation r1 a)) topicInput =
        take 500 (trim (input_value (elements a) topicInput)) \<and>
      length (input_value (elements (generateExplanation r1 a)) topicInput) = 500 \<and>
      notifications (generateExplanation r1 a) =
        notifications a @
          [Notification (ascii ''Topic too long. Limited to 500 chars for Phi-3.'') warning] \<and>
      requests (generateExplanation r1 a) = requests a \<and>
      requests (generateExplanation r1' (generateExplanation r1 a)) =
        requests a @ [Fetch (backendUrl (state a) @ ascii ''/explain'') POST
          (ExplainBody (trim (take 500 (trim (input_value (elements a) topicInput))))
             (currentDifficulty (state a)) (model (state a)))] \<and>
      trim (take 500 (trim (input_value (elements a) topicInput))) \<noteq> [] \<and>
      length (trim (take 500 (trim (input_value (elements a) topicInput)))) \<le> 500 \<and>
      length (input_value (elements (generateExplanation r1' (generateExplanation r1 a)))
        topicInput) = 500) \<and>
   (2000 < length (trim (input_value (elements a) notesInput)) \<longrightarrow>
      input_value (elements (summarizeNotes r2 a)) notesInput =
        take 2000 (trim (input_value (elements a) notesInput)) \<and>
      length (input_value (elements (summarizeNotes r2 a)) notesInput) = 2000 \<and>
      notifications (summarizeNotes r2 a) =
        notifications a @ [Notification (ascii ''Notes too long. Limited to 2000 chars.'') info] \<and>
      requests (summarizeNotes r2 a) = requests a \<and>
      requests (summarizeNotes r2' (summarizeNotes r2 a)) =
        requests a @ [Fetch (backendUrl (state a) @ ascii ''/summarize'') POST
          (SummarizeBody (trim (take 2000 (trim (input_value (elements a) notesInput))))
             (summaryLength (elements a)) (model (state a)))] \<and>
      trim (take 2000 (trim (input_value (elements a) notesInput))) \<noteq> [] \<and>
      length (trim (take 2000 (trim (input_value (elements a) notesInput)))) \<le> 2000 \<and>
      length (input_value (elements (summarizeNotes r2' (summarizeNotes r2 a))) notesInput)
        = 2000) \<and>
   (1000 < length (trim (input_value (elements a) quizInput)) \<longrightarrow>
      input_value (elements (generateQuiz r3 a)) quizInput =
        take 1000 (trim (input_value (elements a) quizInput)) \<and>
      length (input_value (elements (generateQuiz r3 a)) quizInput) = 1000 \<and>
      notifications (generateQuiz r3 a) =
        notifications a @
          [Notification (ascii ''Content too long. Limited to 1000 chars.'') info] \<and>
      requests (generateQuiz r3 a) = requests a \<and>
      requests (generateQuiz r3' (generateQuiz r3 a)) =
        requests a @ [Fetch (backendUrl (state a) @ ascii ''/quiz'') POST
          (QuizBody (trim (take 1000 (trim (input_value (elements a) quizInput))))
             (quizType (elements a)) (quizDifficulty (elements a))
             (questionCount (elements a)) (model (state a)))] \<and>
      trim (take 1000 (trim (input_value (elements a) quizInput))) \<noteq> [] \<and>
      length (trim (take 1000 (trim (input_value (elements a) quizInput)))) \<le> 1000 \<and>
      length (input_value (elements (generateQuiz r3' (generateQuiz r3 a))) quizInput) = 1000) \<and>
   (800 < length (trim (input_value (elements a) flashcardsInput)) \<longrightarrow>
      input_value (elements (generateFlashcards r4 a)) flashcardsInput =
        take 800 (trim (input_value (elements a) flashcardsInput)) \<and>
      length (input_value (elements (generateFlashcards r4 a)) flashcardsInput) = 800 \<and>
      notifications (generateFlashcards r4 a) =
        notifications a @
          [Notification (ascii ''Content too long. Limited to 800 chars.'') info] \<and>
      requests (generateFlashcards r4 a) = requests a \<and>
      requests (generateFlashcards r4' (generateFlashcards r4 a)) =
        requests a @ [Fetch (backendUrl (state a) @ ascii ''/flashcards'') POST
          (FlashcardsBody (trim (take 800 (trim (input_value (elements a) flashcardsInput))))
             6 (model (state a)))] \<and>
      trim (take 800 (trim (input_value (elements a) flashcardsInput))) \<noteq> [] \<and>
      length (trim (take 800 (trim (input_value (elements a) flashcardsInput)))) \<le> 800 \<and>
      length (input_value (elements (generateFlashcards r4' (generateFlashcards r4 a)))
        flashcardsInput) = 800)"
proof (intro conjI impI)
  assume h: "maxlen < length (input_value (elements a) f)"
  show "length (input_value (elements (validateInput f maxlen a)) f) = maxlen"
    using validateInput_truncates [OF h] by blast
  show "notifications (validateInput f maxlen a) =
        notifications a @ [Notification
          (ascii (''Limited to '' @ number_text maxlen @ '' characters for Phi-3 optimization''))
          warning]"
    using validateInput_truncates [OF h] by blast
  show "requests (validateInput f maxlen a) = requests a"
    using validateInput_truncates [OF h] by blast
next
  let ?v = "input_value (elements a) topicInput"
  let ?a' = "generateExplanation r1 a"
  assume h: "500 < length (trim ?v)"
  note e = generateExplanation_too_long [OF h]
  note t = too_long_resubmit [OF h]
  have v': "input_value (elements ?a') topicInput = take 500 (trim ?v)"
    by (simp add: e)
  have q: "requests (generateExplanation r1' ?a') =
      requests ?a' @ [Fetch (backendUrl (state ?a') @ ascii ''/explain'') POST
        (ExplainBody (trim (input_value (elements ?a') topicInput))
           (currentDifficulty (state ?a')) (model (state ?a')))] \<and>
    input_value (elements (generateExplanation r1' ?a')) = input_value (elements ?a')"
    by (rule generateExplanation_request) (simp_all add: v' t)
  show "input_value (elements ?a') topicInput = take 500 (trim ?v)" by (rule v')
  show "length (input_value (elements ?a') topicInput) = 500" using t by (simp add: v')
  show "notifications ?a' = notifications a @
      [Notification (ascii ''Topic too long. Limited to 500 chars for Phi-3.'') warning]"
    by (simp add: e)
  show "requests ?a' = requests a" by (simp add: e)
  show "requests (generateExplanation r1' ?a') =
      requests a @ [Fetch (backendUrl (state a) @ ascii ''/explain'') POST
        (ExplainBody (trim (take 500 (trim ?v))) (currentDifficulty (state a)) (model (state a)))]"
    using q v' by (simp add: e)
  show "trim (take 500 (trim ?v)) \<noteq> []" using t by simp
  show "length (trim (take 500 (trim ?v))) \<le> 500" using t by simp
  show "length (input_value (elements (generateExplanation r1' ?a')) topicInput) = 500"
    using q v' t by simp
next
  let ?v = "input_value (elements a) notesInput"
  let ?a' = "summarizeNotes r2 a"
  assume h: "2000 < length (trim ?v)"
  note e = summarizeNotes_too_long [OF h]
  note t = too_long_resubmit [OF h]
  have v': "input_value (elements ?a') notesInput = take 2000 (trim ?v)"
    by (simp add: e)
  have q: "requests (summarizeNotes r2' ?a') =
      requests ?a' @ [Fetch (backendUrl (state ?a') @ ascii ''/summarize'') POST
        (SummarizeBody (trim (input_value (elements ?a') notesInput))
           (summaryLength (elements ?a')) (model (state ?a')))] \<and>
    input_value (elements (summarizeNotes r2' ?a')) = input_value (elements ?a')"
    by (rule summarizeNotes_request) (simp_all add: v' t)
  show "input_value (elements ?a') notesInput = take 2000 (trim ?v)" by (rule v')
  show "length (input_value (elements ?a') notesInput) = 2000" using t by (simp add: v')
  show "notifications ?a' = notifications a @
      [Notification (ascii ''Notes too long. Limited to 2000 chars.'') info]"
    by (simp add: e)
  show "requests ?a' = requests a" by (simp add: e)
  show "requests (summarizeNotes r2' ?a') =
      requests a @ [Fetch (backendUrl (state a) @ ascii ''/summarize'') POST
        (SummarizeBody (trim (take 2000 (trim ?v))) (summaryLength (elements a))
           (model (state a)))]"
    using q v' by (simp add: e)
  show "trim (take 2000 (trim ?v)) \<noteq> []" using t by simp
  show "length (trim (take 2000 (trim ?v))) \<le> 2000" using t by simp
  show "length (input_value (elements (summarizeNotes r2' ?a')) notesInput) = 2000"
    using q v' t by simp
next
  let ?v = "input_value (elements a) quizInput"
  let ?a' = "generateQuiz r3 a"
  assume h: "1000 < length (trim ?v)"
  note e = generateQuiz_too_long [OF h]
  note t = too_long_resubmit [OF h]
  have v': "input_value (elements ?a') quizInput = take 1000 (trim ?v)"
    by (simp add: e)
  have q: "requests (generateQuiz r3' ?a') =
      requests ?a' @ [Fetch (backendUrl (state ?a') @ ascii ''/quiz'') POST
        (QuizBody (trim (input_value (elements ?a') quizInput))
           (quizType (elements ?a')) (quizDifficulty (elements ?a'))
           (questionCount (elements ?a')) (model (state ?a')))] \<and>
    input_value (elements (generateQuiz r3' ?a')) = input_value (elements ?a')"
    by (rule generateQuiz_request) (simp_all add: v' t)
  show "input_value (elements ?a') quizInput = take 1000 (trim ?v)" by (rule v')
  show "length (input_value (elements ?a') quizInput) = 1000" using t by (simp add: v')
  show "notifications ?a' = notifications a @
      [Notification (ascii ''Content too long. Limited to 1000 chars.'') info]"
    by (simp add: e)
  show "requests ?a' = requests a" by (simp add: e)
  show "requests (generateQuiz r3' ?a') =
      requests a @ [Fetch (backendUrl (state a) @ ascii ''/quiz'') POST
        (QuizBody (trim (take 1000 (trim ?v))) (quizType (elements a))
           (quizDifficulty (elements a)) (questionCount (elements a)) (model (state a)))]"
    using q v' by (simp add: e)
  show "trim (take 1000 (trim ?v)) \<noteq> []" using t by simp
  show "length (trim (take 1000 (trim ?v))) \<le> 1000" using t by simp
  show "length (input_value (elements (generateQuiz r3' ?a')) quizInput) = 1000"
    using q v' t by simp
next
  let ?v = "input_value (elements a) flashcardsInput"
  let ?a' = "generateFlashcards r4 a"
  assume h: "800 < length (trim ?v)"
  note e = generateFlashcards_too_long [OF h]
  note t = too_long_resubmit [OF h]
  have v': "input_value (elements ?a') flashcardsInput = take 800 (trim ?v)"
    by (simp add: e)
  have q: "requests (generateFlashcards r4' ?a') =
      requests ?a' @ [Fetch (backendUrl (state ?a') @ ascii ''/flashcards'') POST
        (FlashcardsBody (trim (input_value (elements ?a') flashcardsInput)) 6
           (model (state ?a')))] \<and>
    input_value (elements (generateFlashcards r4' ?a')) = input_value (elements ?a')"
    by (rule generateFlashcards_request) (simp_all add: v' t)
  show "input_value (elements ?a') flashcardsInput = take 800 (trim ?v)" by (rule v')
  show "length (input_value (elements ?a') flashcardsInput) = 800" using t by (simp add: v')
  show "notifications ?a' = notifications a @
      [Notification (ascii ''Content too long. Limited to 800 chars.'') info]"
    by (simp add: e)
  show "requests ?a' = requests a" by (simp add: e)
  show "requests (generateFlashcards r4' ?a') =
      requests a @ [Fetch (backendUrl (state a) @ ascii ''/flashcards'') POST
        (FlashcardsBody (trim (take 800 (trim ?v))) 6 (model (state a)))]"
    using q v' by (simp add: e)
  show "trim (take 800 (trim ?v)) \<noteq> []" using t by simp
  show "length (trim (take 800 (trim ?v))) \<le> 800" using t by simp
  show "length (input_value (elements (generateFlashcards r4' ?a')) flashcardsInput) = 800"
    using q v' t by simp
qed

lemma long_input_app_simps:
  "input_value (elements long_input_app) f = replicate 2001 0x61"
  "trim (replicate 2001 0x61) = replicate 2001 0x61"
  "requests long_input_app = []"
  "notifications long_input_app = []"
  by (simp_all add: long_input_app_def initial_app_def initial_dom_def trim_def isWhiteSpace_def)

text \<open>Every input holding 2001 letters \<open>a\<close>.\<close>

theorem input_limit_truncates_and_returns_witness:
  "length (input_value (elements (validateInput topicInput 500 long_input_app)) topicInput) = 500 \<and>
   input_value (elements (generateExplanation FetchRejected long_input_app)) topicInput =
     replicate 500 0x61 \<and>
   requests (generateExplanation FetchRejected long_input_app) = [] \<and>
   length (requests
     (generateExplanation FetchRejected (generateExplanation FetchRejected long_input_app))) = 1 \<and>
   input_value (elements (summarizeNotes FetchRejected long_input_app)) notesInput =
     replicate 2000 0x61 \<and>
   requests (summarizeNotes FetchRejected long_input_app) = [] \<and>
   length (requests
     (summarizeNotes FetchRejected (summarizeNotes FetchRejected long_input_app))) = 1 \<and>
   input_value (elements (generateQuiz FetchRejected long_input_app)) quizInput =
     replicate 1000 0x61 \<and>
   requests (generateQuiz FetchRejected long_input_app) = [] \<and>
   length (requests
     (generateQuiz FetchRejected (generateQuiz FetchRejected long_input_app))) = 1 \<and>
   input_value (elements (generateFlashcards FetchRejected long_input_app)) flashcardsInput =
     replicate 800 0x61 \<and>
   requests (generateFlashcards FetchRejected long_input_app) = [] \<and>
   length (requests
     (generateFlashcards FetchRejected (generateFlashcards FetchRejected long_input_app))) = 1"
  using input_limit_truncates_and_returns [of 500 long_input_app topicInput
      FetchRejected FetchRejected FetchRejected FetchRejected FetchRejected FetchRejected
      FetchRejected FetchRejected]
  by (simp add: long_input_app_simps)

text \<open>
  The claim as stated fails: with a topic of 2001 letters \<open>generateExplanation\<close> issues no
  request, whatever the backend would have answered.
\<close>

theorem long_topic_blocks_submission:
  "500 < length (trim (input_value (elements long_input_app) topicInput)) \<and>
   requests (generateExplanation (FetchResponse 200 None) long_input_app) =
     requests long_input_app"
  by (simp add: long_input_app_simps generateExplanation_too_long)

section \<open>Loading absent or malformed data\<close>

text \<open>
  Claim C5, as amended. When the settings item is absent or the empty string,
  \<open>loadSettings\<close> changes nothing; when it is a text \<open>JSON.parse\<close> rejects, the only change
  is the entry on the console. When the flashcards item is absent or the empty string,
  \<open>loadFlashcards\<close> only shows the info notification 'No saved flashcards found'; when it
  is a text \<open>JSON.parse\<close> rejects, it only shows the error notification 'Failed to load
  flashcards'. In all four cases the state is unchanged.
\<close>

theorem load_absent_or_malformed:
  "(localStorage a ''concepta_settings'' = None \<or> localStorage a ''concepta_settings'' = Some []
      \<longrightarrow> loadSettings parse_settings a = a) \<and>
   (localStorage a ''concepta_settings'' = Some saved \<and> saved \<noteq> [] \<and>
    parse_settings saved = None
      \<longrightarrow> loadSettings parse_settings a =
            a\<lparr>console := console a @ [ConsoleError ''Error loading settings:'' SyntaxError]\<rparr>) \<and>
   (localStorage a ''concepta_flashcards'' = None \<or>
    localStorage a ''concepta_flashcards'' = Some []
      \<longrightarrow> loadFlashcards parse_deck a =
            a\<lparr>notifications := notifications a @
                [Notification (ascii ''No saved flashcards found'') info]\<rparr>) \<and>
   (localStorage a ''concepta_flashcards'' = Some saved' \<and> saved' \<noteq> [] \<and>
    parse_deck saved' = None
      \<longrightarrow> loadFlashcards parse_deck a =
            a\<lparr>notifications := notifications a @
                [Notification (ascii ''Failed to load flashcards'') error]\<rparr>)"
  by (auto simp add: loadSettings_def loadFlashcards_def console_error_def showNotification_def)

lemma malformed_storage_app_simps:
  "localStorage malformed_storage_app ''concepta_settings'' = Some (ascii ''{not json'')"
  "localStorage malformed_storage_app ''concepta_flashcards'' = Some (ascii ''{not json'')"
  "ascii ''{not json'' \<noteq> []"
  "settings_of_json (ascii ''{not json'') = None"
  "deck_of_json (ascii ''{not json'') = None"
  "notifications malformed_storage_app = []"
  "console malformed_storage_app = []"
  "state malformed_storage_app = initial_state"
  "localStorage initial_app k = None"
  "notifications initial_app = []"
  by (simp_all add: malformed_storage_app_def initial_app_def ascii_def deck_of_json_def
      settings_of_json_def expect_def theme_key_def)

text \<open>The empty storage of the constructor's state, and a storage whose two items hold a
  text that is not JSON.\<close>

theorem load_absent_or_malformed_witness:
  "loadSettings settings_of_json initial_app = initial_app \<and>
   state (loadSettings settings_of_json malformed_storage_app) = initial_state \<and>
   notifications (loadSettings settings_of_json malformed_storage_app) = [] \<and>
   console (loadSettings settings_of_json malformed_storage_app) =
     [ConsoleError ''Error loading settings:'' SyntaxError] \<and>
   state (loadFlashcards deck_of_json initial_app) = state initial_app \<and>
   notifications (loadFlashcards deck_of_json initial_app) =
     [Notification (ascii ''No saved flashcards found'') info] \<and>
   state (loadFlashcards deck_of_json malformed_storage_app) = initial_state \<and>
   notifications (loadFlashcards deck_of_json malformed_storage_app) =
     [Notification (ascii ''Failed to load flashcards'') error]"
  using load_absent_or_malformed [of initial_app settings_of_json "ascii ''{not json''" deck_of_json
      "ascii ''{not json''"]
    load_absent_or_malformed [of malformed_storage_app settings_of_json "ascii ''{not json''"
      deck_of_json "ascii ''{not json''"]
  by (simp add: malformed_storage_app_simps)

text \<open>
  The claim as stated fails: a malformed flashcards item is not swallowed silently,
  \<open>loadFlashcards\<close> shows an error notification.
\<close>

theorem malformed_deck_raises_error_notification:
  "localStorage malformed_storage_app ''concepta_flashcards'' = Some (ascii ''{not json'') \<and>
   deck_of_json (ascii ''{not json'') = None \<and>
   notifications (loadFlashcards deck_of_json malformed_storage_app) =
     [Notification (ascii ''Failed to load flashcards'') error]"
  by (simp add: malformed_storage_app_simps loadFlashcards_def showNotification_def)

section \<open>Startup\<close>

text \<open>\<open>checkBackend\<close> returns true exactly for a 2xx response whose body parses.\<close>

lemma checkBackend_succeeds_iff:
  "fst (checkBackend rb a) \<longleftrightarrow> (\<exists>status d. rb = FetchResponse status (Some d) \<and> ok status)"
  by (cases rb) (auto simp add: checkBackend_def Let_def split: option.split)

lemma checkBackend_requests:
  "requests (snd (checkBackend rb a)) =
     requests a @ [Fetch (backendUrl (state a) @ ascii ''/health'') GET NoBody]"
  by (cases rb)
    (auto simp add: checkBackend_def Let_def fetch_def updateConnectionStatus_def
      console_error_def split: option.split)

lemma checkBackend_frame:
  "timers (snd (checkBackend rb a)) = timers a"
  "notifications (snd (checkBackend rb a)) = notifications a"
  "loadingScreen_hidden (elements (snd (checkBackend rb a))) = loadingScreen_hidden (elements a)"
  "body_overflow_auto (elements (snd (checkBackend rb a))) = body_overflow_auto (elements a)"
  "backendUrl (state (snd (checkBackend rb a))) = backendUrl (state a)"
  "apiUrl (state (snd (checkBackend rb a))) = apiUrl (state a)"
  by (cases rb;
      auto simp add: checkBackend_def Let_def fetch_def updateConnectionStatus_def
        console_error_def split: option.split)+

lemma checkBackend_disconnected:
  "\<not> fst (checkBackend rb a) \<Longrightarrow>
   connectionStatus (state (snd (checkBackend rb a))) = disconnected"
  by (cases rb)
    (auto simp add: checkBackend_def Let_def fetch_def updateConnectionStatus_def
      console_error_def split: option.split if_splits)

lemma set_loadingStatus_simps [simp]:
  "state (set_loadingStatus t a) = state a"
  "requests (set_loadingStatus t a) = requests a"
  "timers (set_loadingStatus t a) = timers a"
  "notifications (set_loadingStatus t a) = notifications a"
  "loadingStatus (elements (set_loadingStatus t a)) = t"
  "loadingScreen_hidden (elements (set_loadingStatus t a)) = loadingScreen_hidden (elements a)"
  "body_overflow_auto (elements (set_loadingStatus t a)) = body_overflow_auto (elements a)"
  by (simp_all add: set_loadingStatus_def)

lemma initializeApp_backend_fails:
  assumes "\<not> fst (checkBackend rb (set_loadingStatus CheckingBackendConnection a))"
  shows "initializeApp rb ro a =
     set_loadingStatus BackendNotConnected
       (snd (checkBackend rb (set_loadingStatus CheckingBackendConnection a)))"
  using assms by (simp add: initializeApp_def Let_def split_beta)

lemma initializeApp_backend_ok:
  assumes "fst (checkBackend rb (set_loadingStatus CheckingBackendConnection a))"
  shows "requests (initializeApp rb ro a) =
       requests a @ [Fetch (backendUrl (state a) @ ascii ''/health'') GET NoBody,
                     Fetch (apiUrl (state a) @ ascii ''/api/tags'') GET NoBody] \<and>
     timers (initializeApp rb ro a) =
       timers a @ [(1000, FinalInitialization
          (case ro of FetchRejected \<Rightarrow> False | FetchResponse status body \<Rightarrow> ok status))]"
  using assms
  by (cases ro)
    (simp_all add: initializeApp_def Let_def split_beta checkOllama_def fetch_def
      setTimeout_def checkBackend_requests checkBackend_frame)

text \<open>
  Claim C6. When \<open>checkBackend\<close> fails, \<open>initializeApp\<close> issues the health request and no
  other (Ollama is not asked), schedules no timeout (the callback that hides the loading
  screen is never registered), leaves the loading screen and the scrolling as they were,
  shows the instructions to start the backend, and shows no notification. When it succeeds,
  the request to Ollama follows the health request and the final callback is scheduled
  after 1000 ms.
\<close>

theorem startup_halts_on_backend_failure:
  "(\<not> fst (checkBackend rb (set_loadingStatus CheckingBackendConnection a)) \<longrightarrow>
      requests (initializeApp rb ro a) =
        requests a @ [Fetch (backendUrl (state a) @ ascii ''/health'') GET NoBody] \<and>
      timers (initializeApp rb ro a) = timers a \<and>
      loadingScreen_hidden (elements (initializeApp rb ro a)) =
        loadingScreen_hidden (elements a) \<and>
      body_overflow_auto (elements (initializeApp rb ro a)) = body_overflow_auto (elements a) \<and>
      loadingStatus (elements (initializeApp rb ro a)) = BackendNotConnected \<and>
      notifications (initializeApp rb ro a) = notifications a \<and>
      connectionStatus (state (initializeApp rb ro a)) = disconnected) \<and>
   (fst (checkBackend rb (set_loadingStatus CheckingBackendConnection a)) \<longrightarrow>
      requests (initializeApp rb ro a) =
        requests a @ [Fetch (backendUrl (state a) @ ascii ''/health'') GET NoBody,
                      Fetch (apiUrl (state a) @ ascii ''/api/tags'') GET NoBody] \<and>
      timers (initializeApp rb ro a) =
        timers a @ [(1000, FinalInitialization
          (case ro of FetchRejected \<Rightarrow> False | FetchResponse status body \<Rightarrow> ok status))])"
proof (intro conjI impI)
  assume h: "\<not> fst (checkBackend rb (set_loadingStatus CheckingBackendConnection a))"
  note e = initializeApp_backend_fails [OF h]
  show "requests (initializeApp rb ro a) =
      requests a @ [Fetch (backendUrl (state a) @ ascii ''/health'') GET NoBody]"
    by (simp add: e checkBackend_requests)
  show "timers (initializeApp rb ro a) = timers a" by (simp add: e checkBackend_frame)
  show "loadingScreen_hidden (elements (initializeApp rb ro a)) =
      loadingScreen_hidden (elements a)"
    by (simp add: e checkBackend_frame)
  show "body_overflow_auto (elements (initializeApp rb ro a)) = body_overflow_auto (elements a)"
    by (simp add: e checkBackend_frame)
  show "loadingStatus (elements (initializeApp rb ro a)) = BackendNotConnected" by (simp add: e)
  show "notifications (initializeApp rb ro a) = notifications a"
    by (simp add: e checkBackend_frame)
  show "connectionStatus (state (initializeApp rb ro a)) = disconnected"
    using checkBackend_disconnected [OF h] by (simp add: e)
next
  assume h: "fst (checkBackend rb (set_loadingStatus CheckingBackendConnection a))"
  show "requests (initializeApp rb ro a) =
      requests a @ [Fetch (backendUrl (state a) @ ascii ''/health'') GET NoBody,
                    Fetch (apiUrl (state a) @ ascii ''/api/tags'') GET NoBody]"
    using initializeApp_backend_ok [OF h] by blast
  show "timers (initializeApp rb ro a) =
      timers a @ [(1000, FinalInitialization
        (case ro of FetchRejected \<Rightarrow> False | FetchResponse status body \<Rightarrow> ok status))]"
    using initializeApp_backend_ok [OF h] by blast
qed

lemma initial_app_simps:
  "requests initial_app = []" "timers initial_app = []" "notifications initial_app = []"
  "console initial_app = []"
  "loadingScreen_hidden (elements initial_app) = False"
  "backendUrl (state initial_app) = ascii ''http://localhost:8000''"
  "apiUrl (state initial_app) = ascii ''http://localhost:11434''"
  by (simp_all add: initial_app_def initial_state_def initial_dom_def)

text \<open>A backend that answers 503, and a backend that answers 200 while Ollama is down.\<close>

theorem startup_halts_on_backend_failure_witness:
  "requests (initializeApp (FetchResponse 503 None) (FetchResponse 200 (Some ())) initial_app) =
     [Fetch (ascii ''http://localhost:8000'' @ ascii ''/health'') GET NoBody] \<and>
   timers (initializeApp (FetchResponse 503 None) (FetchResponse 200 (Some ())) initial_app) = [] \<and>
   \<not> loadingScreen_hidden
       (elements (initializeApp (FetchResponse 503 None) (FetchResponse 200 (Some ()))
          initial_app)) \<and>
   loadingStatus
     (elements (initializeApp (FetchResponse 503 None) (FetchResponse 200 (Some ())) initial_app))
     = BackendNotConnected \<and>
   requests (initializeApp (FetchResponse 200 (Some ())) FetchRejected initial_app) =
     [Fetch (ascii ''http://localhost:8000'' @ ascii ''/health'') GET NoBody,
      Fetch (ascii ''http://localhost:11434'' @ ascii ''/api/tags'') GET NoBody] \<and>
   timers (initializeApp (FetchResponse 200 (Some ())) FetchRejected initial_app) =
     [(1000, FinalInitialization False)]"
proof -
  have 1: "\<not> fst (checkBackend (FetchResponse 503 None)
      (set_loadingStatus CheckingBackendConnection initial_app))"
    by (simp add: checkBackend_succeeds_iff)
  have 2: "fst (checkBackend (FetchResponse 200 (Some ()))
      (set_loadingStatus CheckingBackendConnection initial_app))"
    by (simp add: checkBackend_succeeds_iff ok_def)
  show ?thesis
    using startup_halts_on_backend_failure
        [of "FetchResponse 503 None" initial_app "FetchResponse 200 (Some ())"]
      startup_halts_on_backend_failure [of "FetchResponse 200 (Some ())" initial_app FetchRejected]
      1 2
    by (simp add: initial_app_simps)
qed

section \<open>Empty results of the backend\<close>

lemma number_text_0: "number_text 0 = ''0''"
  by (simp add: number_text.simps)

text \<open>
  Claim C7. When the quiz request is issued and the response is 2xx with an empty list of
  questions, the quiz output shows the header with 0 questions and the 'No questions
  generated' block (not the panel of \<open>showError\<close>), the only notification is the success
  'Quiz generated with 0 questions!', and nothing is written to the console.
\<close>

theorem empty_quiz_renders_empty_state:
  assumes "trim (input_value (elements a) quizInput) \<noteq> []"
    and "length (trim (input_value (elements a) quizInput)) \<le> 1000"
    and "ok status"
    and "questions data = Some []"
  shows "output_html (elements (generateQuiz (FetchResponse status (Some data)) a)) quizOutput =
       QuizOutput 0 (difficulty data) NoQuestionsGenerated \<and>
     output_html (elements (renderQuiz data a)) quizOutput =
       QuizOutput 0 (difficulty data) NoQuestionsGenerated \<and>
     notifications (generateQuiz (FetchResponse status (Some data)) a) =
       notifications a @ [Notification (ascii ''Quiz generated with 0 questions!'') success] \<and>
     console (generateQuiz (FetchResponse status (Some data)) a) = console a"
  using assms
  by (simp add: generateQuiz_def renderQuiz_def Let_def showLoading_def set_output_def fetch_def
      showNotification_def number_text_0)

lemma quiz_input_app_simps:
  "trim (input_value (elements quiz_input_app) f) = ascii ''cell biology''"
  "ascii ''cell biology'' \<noteq> []"
  "length (ascii ''cell biology'') = 12"
  "notifications quiz_input_app = []"
  "console quiz_input_app = []"
  "flashcards (state quiz_input_app) = []"
  by (simp_all add: quiz_input_app_def initial_app_def initial_dom_def initial_state_def
      trim_def isWhiteSpace_def ascii_def)

text \<open>The response \<open>{questions: [], difficulty: "easy"}\<close>.\<close>

theorem empty_quiz_renders_empty_state_witness:
  "output_html
     (elements (generateQuiz
        (FetchResponse 200 (Some \<lparr>questions = Some [], difficulty = ascii ''easy''\<rparr>))
        quiz_input_app)) quizOutput =
     QuizOutput 0 (ascii ''easy'') NoQuestionsGenerated \<and>
   notifications (generateQuiz
        (FetchResponse 200 (Some \<lparr>questions = Some [], difficulty = ascii ''easy''\<rparr>))
        quiz_input_app) =
     [Notification (ascii ''Quiz generated with 0 questions!'') success] \<and>
   console (generateQuiz
        (FetchResponse 200 (Some \<lparr>questions = Some [], difficulty = ascii ''easy''\<rparr>))
        quiz_input_app) = []"
  using empty_quiz_renders_empty_state
    [of quiz_input_app 200 "\<lparr>questions = Some [], difficulty = ascii ''easy''\<rparr>"]
  by (simp add: quiz_input_app_simps ok_def)

text \<open>
  Claim C9. When the flashcards request is issued and the response is 2xx with a body that
  has no \<open>flashcards\<close> (missing or null), the deck becomes empty, the index 0, the flipped
  flag false, the only notification is the success 'Generated 0 flashcards with Phi-3!', and
  no error is logged.
\<close>

theorem missing_flashcards_gives_empty_deck:
  assumes "trim (input_value (elements a) flashcardsInput) \<noteq> []"
    and "length (trim (input_value (elements a) flashcardsInput)) \<le> 800"
    and "ok status"
    and "flashcards_field data = None"
  shows "flashcards (state (generateFlashcards (FetchResponse status (Some data)) a)) = [] \<and>
     currentFlashcardIndex (state (generateFlashcards (FetchResponse status (Some data)) a)) = 0 \<and>
     \<not> isFlashcardFlipped (state (generateFlashcards (FetchResponse status (Some data)) a)) \<and>
     notifications (generateFlashcards (FetchResponse status (Some data)) a) =
       notifications a @
         [Notification (ascii ''Generated 0 flashcards with Phi-3!'') success] \<and>
     console (generateFlashcards (FetchResponse status (Some data)) a) = console a"
  using assms
  by (simp add: generateFlashcards_def Let_def fetch_def updateFlashcardDisplay_def
      showNotification_def number_text_0)



lemma deck_input_app_simps:
  "trim (input_value (elements deck_input_app) f) = ascii ''cell biology''"
  "notifications deck_input_app = []"
  "console deck_input_app = []"
  "flashcards (state deck_input_app) = example_deck"
  by (simp_all add: deck_input_app_def example_app_def initial_app_def initial_dom_def
      trim_def isWhiteSpace_def ascii_def)

text \<open>A deck of three cards is replaced by the empty deck.\<close>

theorem missing_flashcards_gives_empty_deck_witness:
  "flashcards (state deck_input_app) = example_deck \<and>
   flashcards (state (generateFlashcards
      (FetchResponse 200 (Some \<lparr>flashcards_field = None\<rparr>)) deck_input_app)) = [] \<and>
   currentFlashcardIndex (state (generateFlashcards
      (FetchResponse 200 (Some \<lparr>flashcards_field = None\<rparr>)) deck_input_app)) = 0 \<and>
   \<not> isFlashcardFlipped (state (generateFlashcards
      (FetchResponse 200 (Some \<lparr>flashcards_field = None\<rparr>)) deck_input_app)) \<and>
   notifications (generateFlashcards
      (FetchResponse 200 (Some \<lparr>flashcards_field = None\<rparr>)) deck_input_app) =
     [Notification (ascii ''Generated 0 flashcards with Phi-3!'') success]"
  using missing_flashcards_gives_empty_deck
    [of deck_input_app 200 "\<lparr>flashcards_field = None\<rparr>"]
  by (simp add: deck_input_app_simps quiz_input_app_simps ok_def)

section \<open>Saving and loading\<close>

lemma loadFlashcards_stored:
  assumes "localStorage b ''concepta_flashcards'' = Some saved"
    and "saved \<noteq> []"
    and "parse saved = Some cards"
  shows "state (loadFlashcards parse b) =
      (state b)\<lparr>flashcards := cards, currentFlashcardIndex := 0, isFlashcardFlipped := False\<rparr> \<and>
    notifications (loadFlashcards parse b) =
      notifications b @
        [Notification (ascii (''Loaded '' @ number_text (length cards) @ '' flashcards''))
           success]"
  using assms
  by (cases "cards = []")
    (simp_all add: loadFlashcards_def Let_def updateFlashcardDisplay_def showNotification_def)

lemma saveFlashcards_stores:
  assumes "flashcards (state a) \<noteq> []"
    and "accepts (localStorage a) ''concepta_flashcards'' (stringify (flashcards (state a)))"
  shows "saveFlashcards stringify accepts a =
      a\<lparr>localStorage := (localStorage a)
            (''concepta_flashcards'' \<mapsto> stringify (flashcards (state a))),
        notifications := notifications a @
          [Notification
             (ascii (''Saved '' @ number_text (length (flashcards (state a))) @ '' flashcards''))
             success]\<rparr>"
  using assms by (simp add: saveFlashcards_def setItem_def showNotification_def)

text \<open>
  Claim C8. For a deck that is not empty, when the storage accepts the write and
  \<open>JSON.parse\<close> reads back the deck from the text \<open>JSON.stringify\<close> wrote (a text that is
  never empty), \<open>saveFlashcards\<close> followed by \<open>loadFlashcards\<close> gives the same deck, card
  for card and in order, with the index 0 and the flipped flag false. The same holds when
  the deck is loaded in any later state \<open>b\<close> whose storage is the one the save left.
\<close>

theorem save_load_roundtrip:
  assumes "flashcards (state a) \<noteq> []"
    and "accepts (localStorage a) ''concepta_flashcards'' (stringify (flashcards (state a)))"
    and "stringify (flashcards (state a)) \<noteq> []"
    and "parse (stringify (flashcards (state a))) = Some (flashcards (state a))"
    and "localStorage b = localStorage (saveFlashcards stringify accepts a)"
  shows "flashcards (state (loadFlashcards parse (saveFlashcards stringify accepts a))) =
       flashcards (state a) \<and>
     currentFlashcardIndex (state (loadFlashcards parse (saveFlashcards stringify accepts a))) = 0 \<and>
     \<not> isFlashcardFlipped (state (loadFlashcards parse (saveFlashcards stringify accepts a))) \<and>
     flashcards (state (loadFlashcards parse b)) = flashcards (state a) \<and>
     currentFlashcardIndex (state (loadFlashcards parse b)) = 0 \<and>
     \<not> isFlashcardFlipped (state (loadFlashcards parse b))"
proof -
  let ?s = "saveFlashcards stringify accepts a"
  have st: "localStorage ?s ''concepta_flashcards'' = Some (stringify (flashcards (state a)))"
    using assms(1,2) by (simp add: saveFlashcards_stores)
  have 1: "state (loadFlashcards parse ?s) =
      (state ?s)\<lparr>flashcards := flashcards (state a), currentFlashcardIndex := 0,
        isFlashcardFlipped := False\<rparr>"
    using loadFlashcards_stored [where parse = parse, OF st assms(3,4)] by blast
  have "localStorage b ''concepta_flashcards'' = Some (stringify (flashcards (state a)))"
    using st assms(5) by simp
  then have 2: "state (loadFlashcards parse b) =
      (state b)\<lparr>flashcards := flashcards (state a), currentFlashcardIndex := 0,
        isFlashcardFlipped := False\<rparr>"
    using loadFlashcards_stored [where parse = parse and b = b, OF _ assms(3,4)] by blast
  show ?thesis by (simp add: 1 2)
qed

text \<open>The deck of three cards, saved, then loaded at once and loaded into an empty deck.\<close>

theorem save_load_roundtrip_witness:
  "flashcards (state (loadFlashcards deck_of_json
      (saveFlashcards deck_json (\<lambda>store key v. True) example_app))) = example_deck \<and>
   currentFlashcardIndex (state (loadFlashcards deck_of_json
      (saveFlashcards deck_json (\<lambda>store key v. True) example_app))) = 0 \<and>
   \<not> isFlashcardFlipped (state (loadFlashcards deck_of_json
      (saveFlashcards deck_json (\<lambda>store key v. True) example_app))) \<and>
   flashcards (state stored_deck_app) = [] \<and>
   flashcards (state (loadFlashcards deck_of_json stored_deck_app)) = example_deck"
proof -
  have s: "localStorage stored_deck_app =
      localStorage (saveFlashcards deck_json (\<lambda>store key v. True) example_app)"
    by (simp add: saveFlashcards_stores example_app_simps)
      (simp add: stored_deck_app_def example_app_def initial_app_def)
  have c: "flashcards (state stored_deck_app) = []"
    by (simp add: stored_deck_app_def initial_app_def initial_state_def)
  show ?thesis
    using save_load_roundtrip [of example_app "\<lambda>store key v. True" deck_json deck_of_json
        stored_deck_app] s c
    by (simp add: example_app_simps deck_of_json_deck_json deck_json_nonempty)
qed

text \<open>Saving the empty deck over a stored deck of three cards keeps the stored deck.\<close>

theorem saveFlashcards_empty_no_write_witness:
  "flashcards (state stored_deck_app) = [] \<and>
   localStorage (saveFlashcards deck_json (\<lambda>store key v. True) stored_deck_app)
     ''concepta_flashcards'' = Some (deck_json example_deck) \<and>
   notifications (saveFlashcards deck_json (\<lambda>store key v. True) stored_deck_app) =
     [Notification (ascii ''No flashcards to save'') warning]"
proof -
  have c: "flashcards (state stored_deck_app) = []"
    by (simp add: stored_deck_app_def initial_app_def initial_state_def)
  show ?thesis
    using saveFlashcards_empty_no_write [OF c, of deck_json "\<lambda>store key v. True"] c
    by (simp add: stored_deck_app_def initial_app_def)
qed

end
